theory Spec2Isabelle
  imports Complex_Main
begin

section \<open>Python values and errors\<close>

text \<open>
  Exceptions of the Python source are values: a function that can raise returns
  \<open>py_error + 'a\<close>, with \<open>Inl\<close> carrying the exception.
\<close>

datatype py_error = KeyError string | IndexError | RuntimeError string

type_synonym feature_map = "string \<rightharpoonup> real"

type_synonym threshold_table = "string \<rightharpoonup> (string \<rightharpoonup> real)"

text \<open>\<open>d.get(k, default)\<close> on a dictionary.\<close>

definition dict_get :: "(string \<rightharpoonup> 'a) \<Rightarrow> string \<Rightarrow> 'a \<Rightarrow> 'a" where
  "dict_get d k dflt = (case d k of None \<Rightarrow> dflt | Some v \<Rightarrow> v)"

text \<open>\<open>d[k]\<close> on a dictionary: raises \<open>KeyError\<close> when the key is absent.\<close>

definition dict_item :: "(string \<rightharpoonup> 'a) \<Rightarrow> string \<Rightarrow> py_error + 'a" where
  "dict_item d k = (case d k of None \<Rightarrow> Inl (KeyError k) | Some v \<Rightarrow> Inr v)"

section \<open>Configuration (config.py)\<close>

definition IMPORTANT_FEATURES :: "string list" where
  "IMPORTANT_FEATURES =
    [''Flow Duration'', ''Total Fwd Packets'', ''Total Backward Packets'',
     ''Total Length of Fwd Packets'', ''Total Length of Bwd Packets'',
     ''Fwd Packet Length Max'', ''Fwd Packet Length Mean'', ''Fwd Packet Length Std'',
     ''Bwd Packet Length Max'', ''Bwd Packet Length Mean'', ''Bwd Packet Length Std'',
     ''Flow Bytes/s'', ''Flow Packets/s'', ''Flow IAT Mean'', ''Flow IAT Std'',
     ''Flow IAT Max'', ''Flow IAT Min'', ''Fwd IAT Total'', ''Fwd Header Length'',
     ''Bwd Header Length'', ''Min Packet Length'', ''Max Packet Length'',
     ''Packet Length Mean'', ''Packet Length Std'', ''Packet Length Variance'',
     ''ACK Flag Count'', ''Down/Up Ratio'', ''Average Packet Size'',
     ''Avg Bwd Segment Size'', ''Subflow Fwd Bytes'', ''Init_Win_bytes_forward'',
     ''Init_Win_bytes_backward'', ''Idle Mean'', ''Idle Max'', ''Idle Min'']"

definition RCA_TYPE1_THRESHOLDS :: threshold_table where
  "RCA_TYPE1_THRESHOLDS = map_of
    [(''bandwidth_saturation'', map_of
        [(''flow_bytes_per_sec'', 1000000), (''flow_packets_per_sec'', 1000)]),
     (''throughput_anomalies'', map_of
        [(''total_fwd_packets'', 10000), (''total_bwd_packets'', 10000)]),
     (''unusual_header_length'', map_of
        [(''fwd_header_length'', 100), (''bwd_header_length'', 100)]),
     (''unusual_packet_size'', map_of
        [(''max_packet_length'', 1500), (''packet_length_mean'', 1000)]),
     (''unusual_flow_duration'', map_of
        [(''flow_duration'', 300000000)])]"

text \<open>\<open>Config.RESPONSE_PLAYBOOKS['type1']\<close> and \<open>['type2']\<close>.\<close>

definition RESPONSE_PLAYBOOKS_type1 :: "string \<rightharpoonup> string" where
  "RESPONSE_PLAYBOOKS_type1 = map_of
    [(''bandwidth_saturation'', ''response/playbooks/type1/bandwidth_saturation_fix.yml''),
     (''throughput_anomaly'', ''response/playbooks/type1/throughput_anomaly_fix.yml''),
     (''header_length'', ''response/playbooks/type1/header_length_fix.yml''),
     (''packet_size'', ''response/playbooks/type1/packet_size_fix.yml''),
     (''flow_duration'', ''response/playbooks/type1/flow_duration_fix.yml'')]"

definition RESPONSE_PLAYBOOKS_type2 :: "string \<rightharpoonup> string" where
  "RESPONSE_PLAYBOOKS_type2 = map_of
    [(''latency'', ''response/playbooks/type2/latency_fix.yml''),
     (''error_rate'', ''response/playbooks/type2/error_rate_fix.yml''),
     (''flapping_links'', ''response/playbooks/type2/flapping_links_fix.yml''),
     (''connectivity'', ''response/playbooks/type2/connectivity_fix.yml''),
     (''packet_loss'', ''response/playbooks/type2/packet_loss_fix.yml'')]"

section \<open>Stage 1: threshold classification (routes/rca\_type1.py)\<close>

text \<open>
  One comparison \<open>features.get(f, 0) > thresholds[c][k]\<close>. The subscripts raise
  \<open>KeyError\<close> on a table that lacks the entry; the feature lookup never raises.
\<close>

definition exceeds ::
  "feature_map \<Rightarrow> threshold_table \<Rightarrow> string \<Rightarrow> string \<Rightarrow> string \<Rightarrow> py_error + bool" where
  "exceeds features thresholds f c k =
     (case dict_item thresholds c of
        Inl e \<Rightarrow> Inl e
      | Inr row \<Rightarrow>
          (case dict_item row k of
             Inl e \<Rightarrow> Inl e
           | Inr t \<Rightarrow> Inr (dict_get features f 0 > t)))"

text \<open>Python's \<open>a or b\<close>: the right operand is evaluated only when the left one is false.\<close>

definition py_or :: "py_error + bool \<Rightarrow> py_error + bool \<Rightarrow> py_error + bool" where
  "py_or a b = (case a of Inl e \<Rightarrow> Inl e | Inr True \<Rightarrow> Inr True | Inr False \<Rightarrow> b)"

definition classify_anomaly_type ::
  "feature_map \<Rightarrow> threshold_table \<Rightarrow> py_error + string option" where
  "classify_anomaly_type features thresholds =
     (case py_or (exceeds features thresholds ''Flow Bytes/s'' ''bandwidth_saturation'' ''flow_bytes_per_sec'')
                 (exceeds features thresholds ''Flow Packets/s'' ''bandwidth_saturation'' ''flow_packets_per_sec'') of
        Inl e \<Rightarrow> Inl e
      | Inr True \<Rightarrow> Inr (Some ''bandwidth_saturation'')
      | Inr False \<Rightarrow>
     (case py_or (exceeds features thresholds ''Total Length of Fwd Packets'' ''throughput_anomalies'' ''total_fwd_packets'')
                 (exceeds features thresholds ''Total Length of Bwd Packets'' ''throughput_anomalies'' ''total_bwd_packets'') of
        Inl e \<Rightarrow> Inl e
      | Inr True \<Rightarrow> Inr (Some ''throughput_anomaly'')
      | Inr False \<Rightarrow>
     (case py_or (exceeds features thresholds ''Fwd Header Length'' ''unusual_header_length'' ''fwd_header_length'')
                 (exceeds features thresholds ''Bwd Header Length'' ''unusual_header_length'' ''bwd_header_length'') of
        Inl e \<Rightarrow> Inl e
      | Inr True \<Rightarrow> Inr (Some ''header_length'')
      | Inr False \<Rightarrow>
     (case py_or (exceeds features thresholds ''Max Packet Length'' ''unusual_packet_size'' ''max_packet_length'')
                 (exceeds features thresholds ''Packet Length Mean'' ''unusual_packet_size'' ''packet_length_mean'') of
        Inl e \<Rightarrow> Inl e
      | Inr True \<Rightarrow> Inr (Some ''packet_size'')
      | Inr False \<Rightarrow>
     (case exceeds features thresholds ''Flow Duration'' ''unusual_flow_duration'' ''flow_duration'' of
        Inl e \<Rightarrow> Inl e
      | Inr True \<Rightarrow> Inr (Some ''flow_duration'')
      | Inr False \<Rightarrow> Inr None)))))"

subsection \<open>The classification as the specification words it\<close>

text \<open>
  The specification describes Stage 1 as a fixed, ordered list of five threshold
  predicates, each a disjunction of comparisons "feature value > configured constant"
  with a missing feature read as zero, of which the first true one is returned.
  \<open>threshold_entries\<close> lists, per category and in the evaluation order, the
  feature, table row and table column of each comparison.
\<close>

definition threshold_entries :: "(string \<times> (string \<times> string \<times> string) list) list" where
  "threshold_entries =
    [(''bandwidth_saturation'',
        [(''Flow Bytes/s'', ''bandwidth_saturation'', ''flow_bytes_per_sec''),
         (''Flow Packets/s'', ''bandwidth_saturation'', ''flow_packets_per_sec'')]),
     (''throughput_anomaly'',
        [(''Total Length of Fwd Packets'', ''throughput_anomalies'', ''total_fwd_packets''),
         (''Total Length of Bwd Packets'', ''throughput_anomalies'', ''total_bwd_packets'')]),
     (''header_length'',
        [(''Fwd Header Length'', ''unusual_header_length'', ''fwd_header_length''),
         (''Bwd Header Length'', ''unusual_header_length'', ''bwd_header_length'')]),
     (''packet_size'',
        [(''Max Packet Length'', ''unusual_packet_size'', ''max_packet_length''),
         (''Packet Length Mean'', ''unusual_packet_size'', ''packet_length_mean'')]),
     (''flow_duration'',
        [(''Flow Duration'', ''unusual_flow_duration'', ''flow_duration'')])]"

text \<open>A table is complete when it holds every constant the five predicates read.\<close>

definition has_threshold :: "threshold_table \<Rightarrow> string \<times> string \<times> string \<Rightarrow> bool" where
  "has_threshold thresholds e =
     (case e of (f, c, k) \<Rightarrow>
        (case thresholds c of None \<Rightarrow> False | Some row \<Rightarrow> row k \<noteq> None))"

definition complete_table :: "threshold_table \<Rightarrow> bool" where
  "complete_table thresholds =
     list_all (has_threshold thresholds) (concat (map snd threshold_entries))"

definition comparison_holds ::
  "feature_map \<Rightarrow> threshold_table \<Rightarrow> string \<times> string \<times> string \<Rightarrow> bool" where
  "comparison_holds features thresholds e =
     (case e of (f, c, k) \<Rightarrow>
        (case thresholds c of
           None \<Rightarrow> False
         | Some row \<Rightarrow>
             (case row k of
                None \<Rightarrow> False
              | Some t \<Rightarrow> (case features f of None \<Rightarrow> 0 | Some v \<Rightarrow> v) > t)))"

definition predicate_holds ::
  "feature_map \<Rightarrow> threshold_table \<Rightarrow> string \<times> (string \<times> string \<times> string) list \<Rightarrow> bool" where
  "predicate_holds features thresholds p =
     list_ex (comparison_holds features thresholds) (snd p)"

definition first_match :: "feature_map \<Rightarrow> threshold_table \<Rightarrow> string option" where
  "first_match features thresholds =
     map_option fst (find (predicate_holds features thresholds) threshold_entries)"

text \<open>A feature map in which every missing feature has been replaced by zero.\<close>

definition zero_filled :: "feature_map \<Rightarrow> feature_map" where
  "zero_filled features = (\<lambda>k. Some (dict_get features k 0))"

section \<open>Randomness and the clock\<close>

text \<open>
  Every call of the \<open>random\<close> module takes the value it draws as an argument:
  \<open>random.choice(seq)\<close> with the number \<open>k\<close> drawn is \<open>seq[k mod len(seq)]\<close> and
  raises \<open>IndexError\<close> on an empty sequence; \<open>random.uniform(a, b)\<close> with the
  fraction \<open>u\<close> drawn is \<open>a + (b - a) * u\<close>; \<open>random.randint(a, b)\<close> with the number
  \<open>k\<close> drawn is \<open>a + k mod (b - a + 1)\<close> (every call in the source has \<open>a \<le> b\<close>).
\<close>

definition choice :: "'a list \<Rightarrow> nat \<Rightarrow> py_error + 'a" where
  "choice seq k = (if seq = [] then Inl IndexError else Inr (seq ! (k mod length seq)))"

definition uniform :: "real \<Rightarrow> real \<Rightarrow> real \<Rightarrow> real" where
  "uniform a b u = a + (b - a) * u"

definition randint :: "int \<Rightarrow> int \<Rightarrow> nat \<Rightarrow> int" where
  "randint a b k = a + int (k mod nat (b - a + 1))"

text \<open>
  \<open>int(x)\<close> on a float truncates towards zero; \<open>round(x, n)\<close> keeps \<open>n\<close> decimals
  (a tie is rounded up here, where Python rounds the binary value to the even neighbour).
\<close>

definition py_int :: "real \<Rightarrow> int" where
  "py_int x = (if 0 \<le> x then \<lfloor>x\<rfloor> else \<lceil>x\<rceil>)"

definition py_round :: "real \<Rightarrow> nat \<Rightarrow> real" where
  "py_round x n = real_of_int (round (x * 10 ^ n)) / 10 ^ n"

fun str_of_error :: "py_error \<Rightarrow> string" where
  "str_of_error (KeyError k) = CHR 0x27 # k @ [CHR 0x27]"
| "str_of_error IndexError = ''Cannot choose from an empty sequence''"
| "str_of_error (RuntimeError m) = m"


section \<open>Generated flow features (app.py, utils/data\_generator.py)\<close>

text \<open>
  A value of a generated record or of a cell of a CSV row: an integer, a float (a finite
  float is a real; the three non-finite floats are values of their own) or a string.
\<close>

datatype pyval = PyInt int | PyFloat real | PyInf | PyNegInf | PyNaN | PyStr string

fun is_finite_number :: "pyval \<Rightarrow> bool" where
  "is_finite_number (PyInt n) = True"
| "is_finite_number (PyFloat x) = True"
| "is_finite_number v = False"

text \<open>
  The draws of one call of a generator are two sequences indexed by the position of the
  \<open>random\<close> call in evaluation order: \<open>ru i\<close> is the fraction drawn when call \<open>i\<close> is
  \<open>random.uniform\<close>, \<open>ri i\<close> the number drawn when it is \<open>random.randint\<close> or
  \<open>random.choice\<close>.
\<close>

definition generate_realistic_features :: "(nat \<Rightarrow> real) \<Rightarrow> (nat \<Rightarrow> nat) \<Rightarrow> (string \<times> pyval) list" where
  "generate_realistic_features ru ri =
    [(''Flow Duration'', PyFloat (py_round (uniform 0.1 30.0 (ru 0)) 3)),
     (''Total Fwd Packets'', PyInt (randint 1 1000 (ri 1))),
     (''Total Backward Packets'', PyInt (randint 1 500 (ri 2))),
     (''Total Length of Fwd Packets'', PyInt (randint 64 65535 (ri 3))),
     (''Total Length of Bwd Packets'', PyInt (randint 64 32768 (ri 4))),
     (''Fwd Packet Length Max'', PyFloat (py_round (uniform 64 1500 (ru 5)) 2)),
     (''Fwd Packet Length Mean'', PyFloat (py_round (uniform 200 1000 (ru 6)) 2)),
     (''Fwd Packet Length Std'', PyFloat (py_round (uniform 50 300 (ru 7)) 2)),
     (''Bwd Packet Length Max'', PyFloat (py_round (uniform 64 1500 (ru 8)) 2)),
     (''Bwd Packet Length Mean'', PyFloat (py_round (uniform 200 800 (ru 9)) 2)),
     (''Bwd Packet Length Std'', PyFloat (py_round (uniform 50 250 (ru 10)) 2)),
     (''Flow Bytes/s'', PyFloat (py_round (uniform 100 10000000 (ru 11)) 2)),
     (''Flow Packets/s'', PyFloat (py_round (uniform 1 10000 (ru 12)) 2)),
     (''Flow IAT Mean'', PyFloat (py_round (uniform 0.001 5.0 (ru 13)) 4)),
     (''Flow IAT Std'', PyFloat (py_round (uniform 0.001 2.0 (ru 14)) 4)),
     (''Flow IAT Max'', PyFloat (py_round (uniform 0.1 10.0 (ru 15)) 3)),
     (''Flow IAT Min'', PyFloat (py_round (uniform 0.0001 0.1 (ru 16)) 4)),
     (''Fwd IAT Total'', PyFloat (py_round (uniform 0.1 100.0 (ru 17)) 3)),
     (''Fwd Header Length'', PyFloat (py_round (uniform 20 60 (ru 18)) 2)),
     (''Bwd Header Length'', PyFloat (py_round (uniform 20 60 (ru 19)) 2)),
     (''Min Packet Length'', PyFloat (py_round (uniform 64 200 (ru 20)) 2)),
     (''Max Packet Length'', PyFloat (py_round (uniform 1000 1500 (ru 21)) 2)),
     (''Packet Length Mean'', PyFloat (py_round (uniform 300 800 (ru 22)) 2)),
     (''Packet Length Std'', PyFloat (py_round (uniform 100 400 (ru 23)) 2)),
     (''Packet Length Variance'', PyFloat (py_round (uniform 10000 160000 (ru 24)) 2)),
     (''ACK Flag Count'', PyInt (randint 0 100 (ri 25))),
     (''Down/Up Ratio'', PyFloat (py_round (uniform 0.1 5.0 (ru 26)) 3)),
     (''Average Packet Size'', PyFloat (py_round (uniform 200 1200 (ru 27)) 2)),
     (''Avg Bwd Segment Size'', PyFloat (py_round (uniform 200 1000 (ru 28)) 2)),
     (''Subflow Fwd Bytes'', PyInt (randint 64 65535 (ri 29))),
     (''Init_Win_bytes_forward'', PyInt (randint 8192 65536 (ri 30))),
     (''Init_Win_bytes_backward'', PyInt (randint 8192 65536 (ri 31))),
     (''Idle Mean'', PyFloat (py_round (uniform 0.1 10.0 (ru 32)) 3)),
     (''Idle Max'', PyFloat (py_round (uniform 1.0 50.0 (ru 33)) 3)),
     (''Idle Min'', PyFloat (py_round (uniform 0.01 1.0 (ru 34)) 4))]"

text \<open>
  \<open>DataGenerator._generate_network_row\<close>. The addresses of the configuration and the
  text of the clock reading are arguments. The row is the dictionary in the order of the
  source: five columns of network metadata, then the flow features.
\<close>

definition metadata_columns :: "string list" where
  "metadata_columns = [''Timestamp'', ''Src IP'', ''Dst IP'', ''Src Port'', ''Dst Port'']"

definition generate_network_row ::
  "string list \<Rightarrow> string list \<Rightarrow> string \<Rightarrow> (nat \<Rightarrow> real) \<Rightarrow> (nat \<Rightarrow> nat)
     \<Rightarrow> py_error + (string \<times> pyval) list" where
  "generate_network_row device_ips vlan_ips now_isoformat ru ri =
     (let all_ips = (if length (device_ips @ vlan_ips) < 2
                     then [''192.168.1.1'', ''192.168.1.2'', ''192.168.10.1'', ''192.168.20.1'']
                     else device_ips @ vlan_ips)
      in
      case choice all_ips (ri 0) of
        Inl e \<Rightarrow> Inl e
      | Inr src_ip \<Rightarrow>
      (case choice (filter (\<lambda>ip. ip \<noteq> src_ip) all_ips) (ri 1) of
        Inl e \<Rightarrow> Inl e
      | Inr dst_ip \<Rightarrow>
      (let base_packets = randint 1 1000 (ri 2);
           base_bytes = base_packets * randint 64 1500 (ri 3);
           flow_duration = randint 1000 300000000 (ri 4);
           src_port = randint 1024 65535 (ri 5)
       in
       case choice [80, 443, 22, 25, 53, 21, 23, 993, 995] (ri 6) of
         Inl e \<Rightarrow> Inl e
       | Inr dst_port \<Rightarrow> Inr
    [(''Timestamp'', PyStr now_isoformat),
     (''Src IP'', PyStr src_ip),
     (''Dst IP'', PyStr dst_ip),
     (''Src Port'', PyInt src_port),
     (''Dst Port'', PyInt dst_port),
     (''Flow Duration'', PyInt flow_duration),
     (''Total Fwd Packets'', PyInt base_packets),
     (''Total Backward Packets'', PyInt (randint 1 base_packets (ri 7))),
     (''Total Length of Fwd Packets'', PyInt base_bytes),
     (''Total Length of Bwd Packets'', PyInt (randint 64 base_bytes (ri 8))),
     (''Fwd Packet Length Max'', PyInt (randint 64 1500 (ri 9))),
     (''Fwd Packet Length Mean'', PyInt (randint 64 800 (ri 10))),
     (''Fwd Packet Length Std'', PyFloat (uniform 0 100 (ru 11))),
     (''Bwd Packet Length Max'', PyInt (randint 64 1500 (ri 12))),
     (''Bwd Packet Length Mean'', PyInt (randint 64 800 (ri 13))),
     (''Bwd Packet Length Std'', PyFloat (uniform 0 100 (ru 14))),
     (''Flow Bytes/s'', PyFloat (uniform 100 1000000 (ru 15))),
     (''Flow Packets/s'', PyFloat (uniform 1 1000 (ru 16))),
     (''Flow IAT Mean'', PyFloat (uniform 0 10000 (ru 17))),
     (''Flow IAT Std'', PyFloat (uniform 0 5000 (ru 18))),
     (''Flow IAT Max'', PyFloat (uniform 0 50000 (ru 19))),
     (''Flow IAT Min'', PyFloat (uniform 0 1000 (ru 20))),
     (''Fwd IAT Total'', PyFloat (uniform 0 100000 (ru 21))),
     (''Fwd Header Length'', PyInt (randint 20 100 (ri 22))),
     (''Bwd Header Length'', PyInt (randint 20 100 (ri 23))),
     (''Min Packet Length'', PyInt 64),
     (''Max Packet Length'', PyInt (randint 64 1500 (ri 24))),
     (''Packet Length Mean'', PyInt (randint 64 800 (ri 25))),
     (''Packet Length Std'', PyFloat (uniform 0 200 (ru 26))),
     (''Packet Length Variance'', PyFloat (uniform 0 40000 (ru 27))),
     (''ACK Flag Count'', PyInt (randint 0 base_packets (ri 28))),
     (''Down/Up Ratio'', PyFloat (uniform 0 10 (ru 29))),
     (''Average Packet Size'', PyInt (randint 64 800 (ri 30))),
     (''Avg Bwd Segment Size'', PyInt (randint 0 800 (ri 31))),
     (''Subflow Fwd Bytes'', PyInt (randint 0 base_bytes (ri 32))),
     (''Init_Win_bytes_forward'', PyInt (randint 0 65535 (ri 33))),
     (''Init_Win_bytes_backward'', PyInt (randint 0 65535 (ri 34))),
     (''Idle Mean'', PyFloat (uniform 0 10000 (ru 35))),
     (''Idle Max'', PyFloat (uniform 0 50000 (ru 36))),
     (''Idle Min'', PyFloat (uniform 0 1000 (ru 37)))])))"

text \<open>
  The feature payload of a row: its entries other than the metadata columns, which
  \<open>_extract_metadata\<close> reads on their own.
\<close>

definition feature_payload :: "(string \<times> pyval) list \<Rightarrow> (string \<times> pyval) list" where
  "feature_payload row = filter (\<lambda>(k, v). k \<notin> set metadata_columns) row"

section \<open>Batches of generated events (app.py ANBDLogGenerator)\<close>

text \<open>
  The rows of app.py's own \<open>Event\<close> and \<open>Response\<close> models (the JSON text of
  \<open>features\<close> is the dictionary it encodes), and what a batch acts on: the two tables,
  the events sent to the subscribers (name and identifier) and the printed lines.
\<close>

record app_event =
  row_id :: nat
  log_id :: string
  timestamp :: real
  src_ip :: string
  dst_ip :: string
  src_port :: int
  dst_port :: int
  status :: string
  features :: "(string \<times> pyval) list"

record app_response =
  row_id :: nat
  log_id :: string
  anomaly_id :: string
  timestamp :: real
  src_ip :: string
  dst_ip :: string
  src_port :: int
  dst_port :: int
  anomaly_type1 :: string
  anomaly_type2 :: string
  res_type1 :: string
  res_type2 :: string
  features :: "(string \<times> pyval) list"
  confidence_score :: real
  execution_time :: real
  status :: string

record app_db =
  events :: "app_event list"
  responses :: "app_response list"
  emitted :: "(string \<times> string) list"
  console :: "string list"

definition autoincrement :: "nat list \<Rightarrow> nat" where
  "autoincrement ids = Suc (fold max ids 0)"

text \<open>\<open>get_all_ips\<close> on the topology of the constructor: routers, then end devices.\<close>

definition get_all_ips :: "string list" where
  "get_all_ips =
     [''192.168.60.2'', ''192.168.60.14'', ''192.168.60.17'', ''192.168.60.25'',
      ''192.168.60.29'', ''192.168.61.1'',
      ''192.168.60.6'', ''192.168.60.10'', ''192.168.60.21'', ''192.168.60.26'',
      ''192.168.60.30'',
      ''192.168.60.1'', ''192.168.60.5'',
      ''192.168.60.9'', ''192.168.60.13'',
      ''192.168.60.18'', ''192.168.60.22'', ''192.168.137.2'',
      ''192.168.10.1'', ''192.168.10.2'',
      ''192.168.20.1'', ''192.168.20.2'',
      ''192.168.30.1'', ''192.168.30.2'',
      ''192.168.40.1'', ''192.168.40.2'',
      ''192.168.61.2'']"

definition anomaly_type1_list :: "string list" where
  "anomaly_type1_list =
     [''bandwidth_saturation'', ''throughput_anomaly'', ''unusual_header_length'',
      ''unusual_packet_size'', ''unusual_flow_duration'']"

definition anomaly_type2_list :: "string list" where
  "anomaly_type2_list =
     [''high_latency'', ''high_error_rates'', ''flapping_links'',
      ''connectivity_issues'', ''high_packet_loss'']"

definition response_types_type1 :: "string \<rightharpoonup> string list" where
  "response_types_type1 = map_of
     [(''bandwidth_saturation'', [''qos_adjustment'', ''traffic_shaping'', ''load_balancing'']),
      (''throughput_anomaly'', [''interface_optimization'', ''buffer_tuning'', ''mtu_adjustment'']),
      (''unusual_header_length'', [''header_compression'', ''protocol_optimization'']),
      (''unusual_packet_size'', [''fragmentation_fix'', ''mss_clamping'']),
      (''unusual_flow_duration'', [''timeout_adjustment'', ''session_optimization''])]"

definition response_types_type2 :: "string \<rightharpoonup> string list" where
  "response_types_type2 = map_of
     [(''high_latency'', [''route_optimization'', ''interface_reset'', ''priority_queuing'']),
      (''high_error_rates'', [''interface_diagnostics'', ''cable_check'', ''duplex_fix'']),
      (''flapping_links'', [''interface_stabilization'', ''dampening_config'']),
      (''connectivity_issues'', [''routing_table_refresh'', ''arp_clear'', ''interface_bounce'']),
      (''high_packet_loss'', [''buffer_increase'', ''congestion_control'', ''interface_optimization''])]"

definition reduced_feature_names :: "string list" where
  "reduced_feature_names =
     [''Flow Duration'', ''Total Length of Fwd Packets'', ''Total Length of Bwd Packets'',
      ''Flow Bytes/s'', ''Flow Packets/s'', ''Fwd Header Length'', ''Bwd Header Length'',
      ''Max Packet Length'', ''Packet Length Mean'']"

text \<open>
  What the processing of one unit of a batch reads from its environment: the values
  its \<open>random\<close> calls draw, the identifiers \<open>uuid4\<close> generates, the clock, and for
  each of its two commits whether the database raises (\<open>Some\<close> the exception) or not.
\<close>

record unit_env =
  src_draw :: nat
  dst_draw :: nat
  src_port_draw :: nat
  dst_port_draw :: nat
  status_draw :: real
  feature_fractions :: "nat \<Rightarrow> real"
  feature_numbers :: "nat \<Rightarrow> nat"
  event_log_id :: string
  event_time :: real
  event_commit :: "py_error option"
  type1_draw :: nat
  type2_draw :: nat
  res1_draw :: nat
  res2_draw :: nat
  response_anomaly_id :: string
  response_time :: real
  delay_draw :: nat
  confidence_draw :: real
  execution_draw :: real
  response_status_draw :: nat
  response_commit :: "py_error option"

text \<open>\<open>random.choices(['normal', 'anomalous'], weights=[75, 25], k=1)[0]\<close>.\<close>

definition weighted_status :: "real \<Rightarrow> string" where
  "weighted_status u = (if u * 100 < 75 then ''normal'' else ''anomalous'')"

text \<open>
  The body of the \<open>try\<close> of \<open>generate_and_save_response\<close>, and the method with its
  handler: whatever the body raises is printed, and the method returns.
\<close>

definition save_response :: "app_event \<Rightarrow> (string \<times> pyval) list \<Rightarrow> unit_env \<Rightarrow> app_db
    \<Rightarrow> py_error + app_db" where
  "save_response ev fs u s =
     (case choice anomaly_type1_list (type1_draw u) of
        Inl e \<Rightarrow> Inl e
      | Inr a1 \<Rightarrow>
     (case choice anomaly_type2_list (type2_draw u) of
        Inl e \<Rightarrow> Inl e
      | Inr a2 \<Rightarrow>
     (case dict_item response_types_type1 a1 of
        Inl e \<Rightarrow> Inl e
      | Inr fixes1 \<Rightarrow>
     (case choice fixes1 (res1_draw u) of
        Inl e \<Rightarrow> Inl e
      | Inr r1 \<Rightarrow>
     (case dict_item response_types_type2 a2 of
        Inl e \<Rightarrow> Inl e
      | Inr fixes2 \<Rightarrow>
     (case choice fixes2 (res2_draw u) of
        Inl e \<Rightarrow> Inl e
      | Inr r2 \<Rightarrow>
     (case choice [''success'', ''partial'', ''failed''] (response_status_draw u) of
        Inl e \<Rightarrow> Inl e
      | Inr outcome \<Rightarrow>
     (let re_features = filter (\<lambda>(k, v). k \<in> set reduced_feature_names) fs;
          row = \<lparr> app_response.row_id = autoincrement (map app_response.row_id (app_db.responses s)),
                  app_response.log_id = app_event.log_id ev,
                  app_response.anomaly_id = response_anomaly_id u,
                  app_response.timestamp =
                    response_time u + real_of_int (randint 1 30 (delay_draw u)),
                  app_response.src_ip = app_event.src_ip ev,
                  app_response.dst_ip = app_event.dst_ip ev,
                  app_response.src_port = app_event.src_port ev,
                  app_response.dst_port = app_event.dst_port ev,
                  app_response.anomaly_type1 = a1,
                  app_response.anomaly_type2 = a2,
                  app_response.res_type1 = r1,
                  app_response.res_type2 = r2,
                  app_response.features = re_features,
                  app_response.confidence_score =
                    py_round (uniform 0.7 0.99 (confidence_draw u)) 3,
                  app_response.execution_time =
                    py_round (uniform 0.5 5.0 (execution_draw u)) 2,
                  app_response.status = outcome \<rparr>
      in case response_commit u of
           Some e \<Rightarrow> Inl e
         | None \<Rightarrow>
             Inr (s\<lparr> app_db.responses := app_db.responses s @ [row],
                      emitted := emitted s @ [(''new_response'', response_anomaly_id u)],
                      console := console s @ [''Generated response''] \<rparr>)))))))))"

definition generate_and_save_response ::
  "app_event \<Rightarrow> (string \<times> pyval) list \<Rightarrow> unit_env \<Rightarrow> app_db \<Rightarrow> app_db" where
  "generate_and_save_response ev fs u s =
     (case save_response ev fs u s of
        Inl e \<Rightarrow> s\<lparr> console := console s @ [''Error generating response: '' @ str_of_error e] \<rparr>
      | Inr s' \<Rightarrow> s')"

text \<open>
  One iteration of the \<open>for\<close> loop of \<open>generate_and_save_events\<close>. It has no handler of
  its own: an exception of the commit leaves the iteration.
\<close>

definition save_event :: "unit_env \<Rightarrow> app_db \<Rightarrow> py_error + app_db" where
  "save_event u s =
     (case choice get_all_ips (src_draw u) of
        Inl e \<Rightarrow> Inl e
      | Inr src \<Rightarrow>
     (case choice (filter (\<lambda>ip. ip \<noteq> src) get_all_ips) (dst_draw u) of
        Inl e \<Rightarrow> Inl e
      | Inr dst \<Rightarrow>
     (case choice [22, 23, 53, 80, 443, 993, 995, 3306, 5432, 8080] (dst_port_draw u) of
        Inl e \<Rightarrow> Inl e
      | Inr dport \<Rightarrow>
     (let verdict = weighted_status (status_draw u);
          fs = generate_realistic_features (feature_fractions u) (feature_numbers u);
          ev = \<lparr> app_event.row_id = autoincrement (map app_event.row_id (app_db.events s)),
                 app_event.log_id = event_log_id u,
                 app_event.timestamp = event_time u,
                 app_event.src_ip = src,
                 app_event.dst_ip = dst,
                 app_event.src_port = randint 1024 65535 (src_port_draw u),
                 app_event.dst_port = dport,
                 app_event.status = verdict,
                 app_event.features = fs \<rparr>
      in case event_commit u of
           Some e \<Rightarrow> Inl e
         | None \<Rightarrow>
             (let s1 = s\<lparr> app_db.events := app_db.events s @ [ev],
                          emitted := emitted s @ [(''new_event'', event_log_id u)] \<rparr>;
                  s2 = (if verdict = ''anomalous''
                        then generate_and_save_response ev fs u s1 else s1)
              in Inr (s2\<lparr> console := console s2 @ [''Generated event''] \<rparr>))))))"

text \<open>
  The loop over the units of a batch, and the method: the \<open>try\<close> encloses the whole
  loop, so the first iteration that raises ends the loop, and the handler prints the
  exception and rolls the session back.
\<close>

fun event_loop :: "unit_env list \<Rightarrow> app_db \<Rightarrow> py_error option \<times> app_db" where
  "event_loop [] s = (None, s)"
| "event_loop (u # us) s =
     (case save_event u s of
        Inl e \<Rightarrow> (Some e, s)
      | Inr s' \<Rightarrow> event_loop us s')"

definition generate_and_save_events :: "nat \<Rightarrow> (nat \<Rightarrow> unit_env) \<Rightarrow> app_db \<Rightarrow> app_db" where
  "generate_and_save_events batch_draw envs s =
     (let num_events = randint 3 8 batch_draw in
      case event_loop (map envs [0..<nat num_events]) s of
        (None, s') \<Rightarrow> s'
      | (Some e, s') \<Rightarrow>
          s'\<lparr> console := console s' @ [''Error generating events: '' @ str_of_error e] \<rparr>)"

section \<open>Persisted rows (db/models/events.py, db/models/response.py)\<close>

text \<open>
  A \<open>DateTime\<close> is a point on the clock, in seconds. The primary key \<open>id\<close> of a
  row is the field \<open>row_id\<close>. The JSON text kept in \<open>re_features\<close> is modelled by
  the dictionary it encodes.
\<close>

type_synonym datetime = real

record event =
  row_id :: nat
  log_id :: string
  timestamp :: datetime
  src_ip :: string
  dst_ip :: string
  src_port :: "int option"
  dst_port :: "int option"
  is_anomalous :: bool

record response =
  row_id :: nat
  log_id :: string
  anomaly_id :: string
  timestamp :: datetime
  src_ip :: string
  dst_ip :: string
  src_port :: "int option"
  dst_port :: "int option"
  anomaly_type1 :: "string option"
  re_features :: "(string \<times> real) list option"
  res_type1 :: "string option"
  anomaly_type2 :: "string option"
  res_type2 :: "string option"
  success :: bool
  duration_ms :: "int option"

text \<open>\<open>Response.set_features\<close>: an empty dictionary is stored as \<open>None\<close>.\<close>

definition set_features :: "(string \<times> real) list \<Rightarrow> response \<Rightarrow> response" where
  "set_features features_dict r =
     r\<lparr> re_features := (if features_dict \<noteq> [] then Some features_dict else None) \<rparr>"

definition get_features :: "response \<Rightarrow> (string \<times> real) list" where
  "get_features r = (case re_features r of None \<Rightarrow> [] | Some fs \<Rightarrow> fs)"

datatype json =
    JNull
  | JBool bool
  | JInt int
  | JNum real
  | JStr string
  | JObj "(string \<times> json) list"

definition json_opt :: "('a \<Rightarrow> json) \<Rightarrow> 'a option \<Rightarrow> json" where
  "json_opt f v = (case v of None \<Rightarrow> JNull | Some x \<Rightarrow> f x)"

text \<open>\<open>Response.to_dict\<close>: the serialized record, keys in the order of the source.\<close>

definition to_dict :: "response \<Rightarrow> (string \<times> json) list" where
  "to_dict r =
    [(''id'', JInt (int (response.row_id r))),
     (''log_id'', JStr (response.log_id r)),
     (''anomaly_id'', JStr (anomaly_id r)),
     (''timestamp'', JNum (response.timestamp r)),
     (''src_ip'', JStr (response.src_ip r)),
     (''dst_ip'', JStr (response.dst_ip r)),
     (''src_port'', json_opt JInt (response.src_port r)),
     (''dst_port'', json_opt JInt (response.dst_port r)),
     (''anomaly_type1'', json_opt JStr (anomaly_type1 r)),
     (''re_features'', JObj (map (\<lambda>(k, v). (k, JNum v)) (get_features r))),
     (''res_type1'', json_opt JStr (res_type1 r)),
     (''anomaly_type2'', json_opt JStr (anomaly_type2 r)),
     (''res_type2'', json_opt JStr (res_type2 r)),
     (''success'', JBool (success r)),
     (''duration_ms'', json_opt JInt (duration_ms r))]"

text \<open>
  The two tables, rows in insertion order. \<open>query_first P rows\<close> is
  \<open>session.query(...).filter(P).first()\<close>: the first row that satisfies the filter,
  with its position in the table, or \<open>None\<close>.
\<close>

record database =
  events :: "event list"
  responses :: "response list"

fun query_first :: "('a \<Rightarrow> bool) \<Rightarrow> 'a list \<Rightarrow> (nat \<times> 'a) option" where
  "query_first P [] = None"
| "query_first P (x # xs) =
     (if P x then Some (0, x)
      else (case query_first P xs of None \<Rightarrow> None | Some (i, y) \<Rightarrow> Some (Suc i, y)))"

text \<open>The autoincremented primary key of a new response row.\<close>

definition next_response_id :: "response list \<Rightarrow> nat" where
  "next_response_id rows = Suc (fold max (map response.row_id rows) 0)"

section \<open>Response executor (routes/trigger\_response.py)\<close>

record response_actions =
  type :: string
  actions :: "string list"

definition get_type1_response_actions :: "string \<Rightarrow> response_actions" where
  "get_type1_response_actions anomaly_type =
     dict_get (map_of
       [(''bandwidth_saturation'',
           \<lparr> type = ''bandwidth_optimization'',
             actions = [''Applied traffic shaping'', ''Enabled QoS policies'', ''Increased buffer sizes''] \<rparr>),
        (''throughput_anomaly'',
           \<lparr> type = ''throughput_optimization'',
             actions = [''Optimized TCP window size'', ''Adjusted flow control'', ''Updated routing metrics''] \<rparr>),
        (''header_length'',
           \<lparr> type = ''header_normalization'',
             actions = [''Applied header compression'', ''Filtered malformed packets'', ''Updated protocol settings''] \<rparr>),
        (''packet_size'',
           \<lparr> type = ''packet_optimization'',
             actions = [''Configured MTU discovery'', ''Applied fragmentation rules'', ''Optimized packet sizes''] \<rparr>),
        (''flow_duration'',
           \<lparr> type = ''flow_management'',
             actions = [''Adjusted connection timeouts'', ''Applied flow limits'', ''Optimized session handling''] \<rparr>)])
       anomaly_type
       \<lparr> type = ''generic_fix'', actions = [''Applied generic mitigation''] \<rparr>"

definition get_type2_response_actions :: "string \<Rightarrow> response_actions" where
  "get_type2_response_actions anomaly_type =
     dict_get (map_of
       [(''high_latency'',
           \<lparr> type = ''latency_mitigation'',
             actions = [''Optimized routing paths'', ''Adjusted interface priorities'', ''Applied traffic prioritization''] \<rparr>),
        (''high_error_rates'',
           \<lparr> type = ''error_correction'',
             actions = [''Reset interface counters'', ''Applied error correction'', ''Updated interface configuration''] \<rparr>),
        (''connectivity_issues'',
           \<lparr> type = ''connectivity_restore'',
             actions = [''Restarted network services'', ''Cleared ARP tables'', ''Applied routing updates''] \<rparr>),
        (''packet_loss'',
           \<lparr> type = ''loss_prevention'',
             actions = [''Increased buffer sizes'', ''Applied packet prioritization'', ''Optimized queue management''] \<rparr>),
        (''flapping_links'',
           \<lparr> type = ''link_stabilization'',
             actions = [''Applied dampening policies'', ''Stabilized interface'', ''Updated link parameters''] \<rparr>)])
       anomaly_type
       \<lparr> type = ''generic_network_fix'', actions = [''Applied generic network mitigation''] \<rparr>"

text \<open>
  The dictionary an executor returns. The keys \<open>actions_taken\<close> and \<open>playbook_used\<close>
  are present only after a simulated execution, \<open>error\<close> only on a failure path.
\<close>

record response_result =
  success :: bool
  response_type :: string
  duration_ms :: int
  actions_taken :: "string list option"
  playbook_used :: "string option"
  error :: "string option"

text \<open>
  What one simulated playbook execution reads from its environment: the clock before and
  after the sleep, and the number drawn by \<open>random.choice\<close> for the outcome.
\<close>

record playbook_run =
  start_time :: real
  end_time :: real
  outcome_draw :: nat

definition no_playbook :: "string \<Rightarrow> response_result" where
  "no_playbook anomaly_type =
     \<lparr> success = False, response_type = ''unknown'', duration_ms = 0,
       actions_taken = None, playbook_used = None,
       error = Some (''No playbook found for '' @ anomaly_type) \<rparr>"

definition execution_error :: "py_error \<Rightarrow> response_result" where
  "execution_error e =
     \<lparr> success = False, response_type = ''error'', duration_ms = 0,
       actions_taken = None, playbook_used = None,
       error = Some (str_of_error e) \<rparr>"

definition execute_type1_response :: "string \<Rightarrow> playbook_run \<Rightarrow> response_result" where
  "execute_type1_response anomaly_type run =
     (case RESPONSE_PLAYBOOKS_type1 anomaly_type of
        None \<Rightarrow> no_playbook anomaly_type
      | Some playbook_path \<Rightarrow>
          if playbook_path = [] then no_playbook anomaly_type
          else
            (let response_actions = get_type1_response_actions anomaly_type in
             case choice (replicate 9 True @ [False]) (outcome_draw run) of
               Inl e \<Rightarrow> execution_error e
             | Inr ok \<Rightarrow>
                 \<lparr> success = ok,
                   response_type = type response_actions,
                   duration_ms = py_int ((end_time run - start_time run) * 1000),
                   actions_taken = Some (actions response_actions),
                   playbook_used = Some playbook_path,
                   error = None \<rparr>))"

definition execute_type2_response :: "string \<Rightarrow> playbook_run \<Rightarrow> response_result" where
  "execute_type2_response anomaly_type run =
     (case RESPONSE_PLAYBOOKS_type2 anomaly_type of
        None \<Rightarrow> no_playbook anomaly_type
      | Some playbook_path \<Rightarrow>
          if playbook_path = [] then no_playbook anomaly_type
          else
            (let response_actions = get_type2_response_actions anomaly_type in
             case choice (replicate 85 True @ replicate 15 False) (outcome_draw run) of
               Inl e \<Rightarrow> execution_error e
             | Inr ok \<Rightarrow>
                 \<lparr> success = ok,
                   response_type = type response_actions,
                   duration_ms = py_int ((end_time run - start_time run) * 1000),
                   actions_taken = Some (actions response_actions),
                   playbook_used = Some playbook_path,
                   error = None \<rparr>))"

text \<open>
  The dictionary a trigger returns: \<open>{'success': False, 'error': msg}\<close> or
  \<open>{'success': True, 'anomaly_id': id, 'response_result': result}\<close>.
\<close>

datatype trigger_result = Failure string | Completed string response_result

text \<open>
  Stage 1 writes a new row. The generated anomaly identifier, the clock and the playbook
  run come from the environment. \<open>send_response_update\<close> does not touch the tables.
  \<open>new_response\<close> is the row built by the call \<open>Response(...)\<close> followed by
  \<open>response.set_features(re_features)\<close>.
\<close>

definition new_response ::
  "nat \<Rightarrow> string \<Rightarrow> string \<Rightarrow> datetime \<Rightarrow> event \<Rightarrow> string \<Rightarrow> response_result
     \<Rightarrow> (string \<times> real) list \<Rightarrow> response" where
  "new_response next_id lid new_anomaly_id now ev anomaly_type response_result feats =
     set_features feats
       \<lparr> response.row_id = next_id,
         response.log_id = lid,
         anomaly_id = new_anomaly_id,
         response.timestamp = now,
         response.src_ip = event.src_ip ev,
         response.dst_ip = event.dst_ip ev,
         response.src_port = event.src_port ev,
         response.dst_port = event.dst_port ev,
         anomaly_type1 = Some anomaly_type,
         re_features = None,
         res_type1 = Some (response_type response_result),
         anomaly_type2 = None,
         res_type2 = None,
         response.success = response_result.success response_result,
         response.duration_ms = Some (response_result.duration_ms response_result) \<rparr>"

definition trigger_response1_internal ::
  "string \<Rightarrow> string \<Rightarrow> (string \<times> real) list \<Rightarrow> string \<Rightarrow> datetime \<Rightarrow> playbook_run
     \<Rightarrow> database \<Rightarrow> trigger_result \<times> database" where
  "trigger_response1_internal lid anomaly_type feats new_anomaly_id now run db =
     (case query_first (\<lambda>e. event.log_id e = lid) (events db) of
        None \<Rightarrow> (Failure ''Event not found'', db)
      | Some (i, ev) \<Rightarrow>
          (let response_result = execute_type1_response anomaly_type run;
               row = new_response (next_response_id (responses db)) lid new_anomaly_id now ev
                       anomaly_type response_result feats
           in (Completed new_anomaly_id response_result,
               db\<lparr> responses := responses db @ [row] \<rparr>)))"

text \<open>Stage 2 updates the row found by flow identifier, in place.\<close>

definition trigger_response2_internal ::
  "string \<Rightarrow> string \<Rightarrow> playbook_run \<Rightarrow> database \<Rightarrow> trigger_result \<times> database" where
  "trigger_response2_internal lid anomaly_type run db =
     (case query_first (\<lambda>r. response.log_id r = lid) (responses db) of
        None \<Rightarrow> (Failure ''Response record not found'', db)
      | Some (i, row) \<Rightarrow>
          (let response_result = execute_type2_response anomaly_type run;
               row1 = row\<lparr> anomaly_type2 := Some anomaly_type,
                          res_type2 := Some (response_type response_result) \<rparr>;
               row2 = (if \<not> response_result.success response_result
                       then row1\<lparr> response.success := False \<rparr> else row1)
           in (Completed (anomaly_id row2) response_result,
               db\<lparr> responses := (responses db)[i := row2] \<rparr>)))"

section \<open>Stage 1 and Stage 2 analyses (routes/rca\_type1.py, routes/rca\_type2.py)\<close>

text \<open>
  The dictionary an analysis returns: a failure with its message, a detected category
  with what the response trigger returned, or no category.
\<close>

datatype rca_result = RcaError string | RcaDetected string trigger_result | RcaNone

definition analyze_rule_based ::
  "string \<Rightarrow> (string \<times> real) list \<Rightarrow> string \<Rightarrow> datetime \<Rightarrow> playbook_run \<Rightarrow> database
     \<Rightarrow> rca_result \<times> database" where
  "analyze_rule_based lid feats new_anomaly_id now run db =
     (case classify_anomaly_type (map_of feats) RCA_TYPE1_THRESHOLDS of
        Inl e \<Rightarrow> (RcaError (str_of_error e), db)
      | Inr None \<Rightarrow> (RcaNone, db)
      | Inr (Some anomaly_type) \<Rightarrow>
          if anomaly_type = [] then (RcaNone, db)
          else
            (case trigger_response1_internal lid anomaly_type feats new_anomaly_id now run db of
               (triggered, db') \<Rightarrow> (RcaDetected anomaly_type triggered, db')))"

text \<open>
  A health check either passes or detects a category with a severity (the text of its
  \<open>output\<close> entry is left out). The values the five checks draw are arguments.
\<close>

datatype check = Passed | Detected string string

record health_draws =
  latency_draw :: real
  error_rate_draw :: real
  connectivity_draw :: nat
  packet_loss_draw :: real
  flapping_draw :: nat
  interface_draw :: nat

definition check_latency :: "real \<Rightarrow> check" where
  "check_latency u =
     (let avg_latency = uniform 1 200 u in
      if avg_latency > 100
      then Detected ''high_latency'' (if avg_latency > 150 then ''high'' else ''medium'')
      else Passed)"

definition check_error_rates :: "real \<Rightarrow> check" where
  "check_error_rates u =
     (let error_rate = uniform 0 10 u in
      if error_rate > 2
      then Detected ''high_error_rates'' (if error_rate > 5 then ''high'' else ''medium'')
      else Passed)"

definition check_connectivity :: "nat \<Rightarrow> py_error + check" where
  "check_connectivity k =
     (case choice [True, True, True, False] k of
        Inl e \<Rightarrow> Inl e
      | Inr connectivity_success \<Rightarrow>
          Inr (if \<not> connectivity_success then Detected ''connectivity_issues'' ''high''
               else Passed))"

definition check_packet_loss :: "real \<Rightarrow> check" where
  "check_packet_loss u =
     (let packet_loss = uniform 0 15 u in
      if packet_loss > 3
      then Detected ''packet_loss'' (if packet_loss > 8 then ''high'' else ''medium'')
      else Passed)"

definition check_interface_flapping :: "nat \<Rightarrow> nat \<Rightarrow> py_error + check" where
  "check_interface_flapping k k' =
     (case choice [False, False, False, True] k of
        Inl e \<Rightarrow> Inl e
      | Inr flapping_detected \<Rightarrow>
          if flapping_detected
          then (case choice [''GigabitEthernet0/1'', ''FastEthernet1/0'', ''eth0''] k' of
                  Inl e \<Rightarrow> Inl e
                | Inr interface \<Rightarrow> Inr (Detected ''flapping_links'' ''medium''))
          else Inr Passed)"

record troubleshoot_result =
  anomaly_type :: "string option"
  severity :: string

fun first_detected :: "check list \<Rightarrow> troubleshoot_result" where
  "first_detected [] = \<lparr> anomaly_type = None, severity = ''normal'' \<rparr>"
| "first_detected (Detected a s # checks) = \<lparr> anomaly_type = Some a, severity = s \<rparr>"
| "first_detected (Passed # checks) = first_detected checks"

definition run_troubleshooting_simulation :: "health_draws \<Rightarrow> troubleshoot_result" where
  "run_troubleshooting_simulation d =
     (case check_connectivity (connectivity_draw d) of
        Inl e \<Rightarrow> \<lparr> anomaly_type = None, severity = ''error'' \<rparr>
      | Inr connectivity \<Rightarrow>
          (case check_interface_flapping (flapping_draw d) (interface_draw d) of
             Inl e \<Rightarrow> \<lparr> anomaly_type = None, severity = ''error'' \<rparr>
           | Inr flapping \<Rightarrow>
               first_detected
                 [check_latency (latency_draw d),
                  check_error_rates (error_rate_draw d),
                  connectivity,
                  check_packet_loss (packet_loss_draw d),
                  flapping]))"

definition analyze_network_troubleshooting ::
  "string \<Rightarrow> health_draws \<Rightarrow> playbook_run \<Rightarrow> database \<Rightarrow> rca_result \<times> database" where
  "analyze_network_troubleshooting lid d run db =
     (case query_first (\<lambda>e. event.log_id e = lid) (events db) of
        None \<Rightarrow> (RcaError ''Event not found'', db)
      | Some (i, ev) \<Rightarrow>
          (case troubleshoot_result.anomaly_type (run_troubleshooting_simulation d) of
             None \<Rightarrow> (RcaNone, db)
           | Some a \<Rightarrow>
               if a = [] then (RcaNone, db)
               else (case trigger_response2_internal lid a run db of
                       (triggered, db') \<Rightarrow> (RcaDetected a triggered, db'))))"

text \<open>The categories each stage names in its own code.\<close>

definition stage1_categories :: "string list" where
  "stage1_categories =
     [''bandwidth_saturation'', ''throughput_anomaly'', ''header_length'', ''packet_size'',
      ''flow_duration'']"

definition stage2_categories :: "string list" where
  "stage2_categories =
     [''high_latency'', ''high_error_rates'', ''connectivity_issues'', ''packet_loss'',
      ''flapping_links'']"

section \<open>Lifecycle (utils/core.py StateManager, app.py ANBDLogGenerator)\<close>

record state_manager =
  monitoring :: bool
  start_time :: "datetime option"

definition new_state_manager :: state_manager where
  "new_state_manager = \<lparr> monitoring = False, start_time = None \<rparr>"

definition is_monitoring :: "state_manager \<Rightarrow> bool" where
  "is_monitoring sm = monitoring sm"

text \<open>\<open>set_monitoring\<close> reads the clock, here the argument \<open>now\<close>.\<close>

definition set_monitoring :: "bool \<Rightarrow> datetime \<Rightarrow> state_manager \<Rightarrow> state_manager" where
  "set_monitoring flag now sm =
     sm\<lparr> monitoring := flag,
         state_manager.start_time := (if flag then Some now else None) \<rparr>"

definition get_status :: "state_manager \<Rightarrow> string" where
  "get_status sm = (if monitoring sm then ''running'' else ''stopped'')"

definition state_manager_get_uptime :: "datetime \<Rightarrow> state_manager \<Rightarrow> real" where
  "state_manager_get_uptime now sm =
     (case state_manager.start_time sm of Some t \<Rightarrow> now - t | None \<Rightarrow> 0)"

text \<open>
  The generator of app.py. The thread object is a number that names it;
  \<open>start_generation\<close> takes the new thread and the clock from its environment.
  Each operation returns its result, the generator after it, and the status events it
  sent to the subscribers.
\<close>

record log_generator =
  is_running :: bool
  generation_thread :: "nat option"
  start_time :: "datetime option"
  stop_time :: "datetime option"

definition new_log_generator :: log_generator where
  "new_log_generator =
     \<lparr> is_running = False, generation_thread = None,
       start_time = None, stop_time = None \<rparr>"

record system_status =
  state :: string
  message :: string
  at_time :: datetime
  uptime :: real

definition get_uptime :: "datetime \<Rightarrow> log_generator \<Rightarrow> real" where
  "get_uptime now g =
     (case (is_running g, log_generator.start_time g, stop_time g) of
        (True, Some t0, _) \<Rightarrow> now - t0
      | (_, Some t0, Some t1) \<Rightarrow> t1 - t0
      | _ \<Rightarrow> 0)"

definition start_generation ::
  "datetime \<Rightarrow> nat \<Rightarrow> log_generator \<Rightarrow> bool \<times> log_generator \<times> system_status list" where
  "start_generation now thread g =
     (if is_running g then (False, g, [])
      else
        (let g1 = g\<lparr> is_running := True, log_generator.start_time := Some now \<rparr>;
             sent = \<lparr> state = ''running'', message = ''System started'', at_time = now,
                      uptime = 0 \<rparr>;
             g2 = g1\<lparr> generation_thread := Some thread \<rparr>
         in (True, g2, [sent])))"

definition stop_generation ::
  "datetime \<Rightarrow> log_generator \<Rightarrow> bool \<times> log_generator \<times> system_status list" where
  "stop_generation now g =
     (if \<not> is_running g then (False, g, [])
      else
        (let g1 = g\<lparr> is_running := False, stop_time := Some now \<rparr>;
             uptime = get_uptime now g1;
             sent = \<lparr> state = ''stopped'', message = ''System stopped'', at_time = now,
                      uptime = uptime \<rparr>
         in (True, g1, [sent])))"

text \<open>The routes \<open>/api/system/start\<close> and \<open>/api/system/stop\<close>: status code and body.\<close>

type_synonym http_response = "nat \<times> (string \<times> string) list"

definition start_system ::
  "datetime \<Rightarrow> nat \<Rightarrow> log_generator \<Rightarrow> http_response \<times> log_generator \<times> system_status list" where
  "start_system now thread g =
     (case start_generation now thread g of
        (started, g', sent) \<Rightarrow>
          (if started
           then (200, [(''message'', ''System started successfully''), (''status'', ''running'')])
           else (400, [(''error'', ''System already running'')]), g', sent))"

definition stop_system ::
  "datetime \<Rightarrow> log_generator \<Rightarrow> http_response \<times> log_generator \<times> system_status list" where
  "stop_system now g =
     (case stop_generation now g of
        (stopped, g', sent) \<Rightarrow>
          (if stopped
           then (200, [(''message'', ''System stopped successfully''), (''status'', ''stopped'')])
           else (400, [(''error'', ''System not running'')]), g', sent))"

section \<open>Rows of a CSV file (routes/preprocess.py PreprocessingEngine)\<close>

text \<open>
  What the processing of one row reads: the metadata \<open>_extract_metadata\<close> returns (it
  catches its own exceptions), the generated flow identifier, whether each of the two
  commits raises, and whether the prediction reports an anomaly (\<open>_forward_to_prediction\<close>
  catches its own exceptions and then returns \<open>None\<close>).
\<close>

record csv_row =
  meta_timestamp :: datetime
  meta_src_ip :: string
  meta_dst_ip :: string
  meta_src_port :: "int option"
  meta_dst_port :: "int option"
  row_log_id :: string
  add_commit :: "py_error option"
  prediction :: "bool option"
  update_commit :: "py_error option"

record csv_progress =
  table :: "event list"
  processed_count :: nat
  anomaly_count :: nat
  logged :: "string list"

text \<open>
  The body of the \<open>try\<close> inside the loop of \<open>process_csv_file\<close>: the exception it
  raises, if any, and the progress up to there.
\<close>

definition process_row :: "csv_row \<Rightarrow> csv_progress \<Rightarrow> py_error option \<times> csv_progress" where
  "process_row r p =
     (let ev = \<lparr> event.row_id = autoincrement (map event.row_id (table p)),
                 event.log_id = row_log_id r,
                 event.timestamp = meta_timestamp r,
                 event.src_ip = meta_src_ip r,
                 event.dst_ip = meta_dst_ip r,
                 event.src_port = meta_src_port r,
                 event.dst_port = meta_dst_port r,
                 is_anomalous = False \<rparr>
      in case add_commit r of
           Some e \<Rightarrow> (Some e, p)
         | None \<Rightarrow>
             (let p1 = p\<lparr> table := table p @ [ev] \<rparr> in
              if prediction r = Some True
              then
                (let p2 = p1\<lparr> anomaly_count := Suc (anomaly_count p1) \<rparr> in
                 case update_commit r of
                   Some e \<Rightarrow> (Some e, p2)
                 | None \<Rightarrow>
                     (None, p2\<lparr> table := (table p2)[length (table p) := ev\<lparr> is_anomalous := True \<rparr>],
                                  processed_count := Suc (processed_count p2) \<rparr>))
              else (None, p1\<lparr> processed_count := Suc (processed_count p1) \<rparr>)))"

text \<open>The loop: the handler inside it logs the exception and continues with the next row.\<close>

fun process_rows :: "csv_row list \<Rightarrow> csv_progress \<Rightarrow> csv_progress" where
  "process_rows [] p = p"
| "process_rows (r # rs) p =
     (case process_row r p of
        (None, p') \<Rightarrow> process_rows rs p'
      | (Some e, p') \<Rightarrow>
          process_rows rs (p'\<lparr> logged := logged p' @ [''Error processing row: '' @ str_of_error e] \<rparr>))"

text \<open>
  \<open>process_csv_file\<close> on the rows read from the file, or on the exception of the read:
  the returned dictionary and the events table.
\<close>

datatype csv_result = CsvProcessed nat nat | CsvFailed string

definition process_csv_file :: "py_error + csv_row list \<Rightarrow> event list \<Rightarrow> csv_result \<times> event list" where
  "process_csv_file file db =
     (case file of
        Inl e \<Rightarrow> (CsvFailed (str_of_error e), db)
      | Inr rows \<Rightarrow>
          (let p = process_rows rows
                     \<lparr> table = db, processed_count = 0, anomaly_count = 0, logged = [] \<rparr>
           in (CsvProcessed (processed_count p) (anomaly_count p), table p)))"

section \<open>Example inputs\<close>

text \<open>
  One flow with its event row, one response row of another flow, and playbook runs
  whose outcome draw picks a success (\<open>0\<close>) or a failure (\<open>99\<close>) in both stages.
\<close>

definition example_event :: event where
  "example_event =
     \<lparr> event.row_id = 1, event.log_id = ''log_a'', event.timestamp = 0,
       event.src_ip = ''192.168.10.1'', event.dst_ip = ''192.168.60.1'',
       event.src_port = Some 50000, event.dst_port = Some 443, is_anomalous = True \<rparr>"

definition other_response :: response where
  "other_response =
     \<lparr> response.row_id = 1, response.log_id = ''log_b'', anomaly_id = ''anomaly_b'',
       response.timestamp = 0, response.src_ip = ''192.168.20.1'',
       response.dst_ip = ''192.168.60.9'', response.src_port = Some 40000,
       response.dst_port = Some 80, anomaly_type1 = Some ''packet_size'',
       re_features = Some [(''Max Packet Length'', 1600)],
       res_type1 = Some ''packet_optimization'', anomaly_type2 = None, res_type2 = None,
       response.success = True, response.duration_ms = Some 2000 \<rparr>"

definition example_db :: database where
  "example_db = \<lparr> events = [example_event], responses = [other_response] \<rparr>"

definition run_ok :: playbook_run where
  "run_ok = \<lparr> playbook_run.start_time = 0, end_time = 3, outcome_draw = 0 \<rparr>"

definition run_failed :: playbook_run where
  "run_failed = \<lparr> playbook_run.start_time = 10, end_time = 15, outcome_draw = 99 \<rparr>"

definition example_features :: "(string \<times> real) list" where
  "example_features = [(''Flow Bytes/s'', 2000000), (''Total Length of Fwd Packets'', 20000)]"

text \<open>The example store after Stage 1 has written the row of flow \<open>log_a\<close>.\<close>

definition example_db_stage1 :: database where
  "example_db_stage1 =
     snd (trigger_response1_internal ''log_a'' ''bandwidth_saturation'' example_features
            ''anomaly_a'' 1 run_ok example_db)"

text \<open>Health-check draws whose latency check reports an average of 200 ms.\<close>

definition slow_link_draws :: health_draws where
  "slow_link_draws =
     \<lparr> latency_draw = 1, error_rate_draw = 0, connectivity_draw = 0,
       packet_loss_draw = 0, flapping_draw = 0, interface_draw = 0 \<rparr>"

text \<open>The example store after Stage 2 has then failed for flow \<open>log_a\<close>.\<close>

definition example_db_stage2 :: database where
  "example_db_stage2 =
     snd (trigger_response2_internal ''log_a'' ''packet_loss'' run_failed example_db_stage1)"

text \<open>A generator started at second 10, and the same generator stopped at second 25.\<close>

definition started_generator :: log_generator where
  "started_generator = fst (snd (start_generation 10 1 new_log_generator))"

definition stopped_generator :: log_generator where
  "stopped_generator = fst (snd (stop_generation 25 started_generator))"

text \<open>Draws for a generator: every fraction one half, every number seven.\<close>

definition half_draws :: "nat \<Rightarrow> real" where
  "half_draws i = 1 / 2"

definition seven_draws :: "nat \<Rightarrow> nat" where
  "seven_draws i = 7"

text \<open>
  A batch of three units on an empty store. Unit 0 is anomalous and the commit of its
  response raises; the commit of unit 1's event raises; unit 2 meets no failure.
\<close>

definition database_locked :: py_error where
  "database_locked = RuntimeError ''database is locked''"

definition example_unit :: "nat \<Rightarrow> unit_env" where
  "example_unit i =
     \<lparr> src_draw = i, dst_draw = 0, src_port_draw = 0, dst_port_draw = 0,
       status_draw = (if i = 0 then 9 / 10 else 0),
       feature_fractions = half_draws, feature_numbers = seven_draws,
       event_log_id = (if i = 0 then ''log_0'' else if i = 1 then ''log_1'' else ''log_2''),
       event_time = real i,
       event_commit = (if i = 1 then Some database_locked else None),
       type1_draw = 0, type2_draw = 0, res1_draw = 0, res2_draw = 0,
       response_anomaly_id = ''anomaly_0'', response_time = real i, delay_draw = 0,
       confidence_draw = 0, execution_draw = 0, response_status_draw = 0,
       response_commit = (if i = 0 then Some database_locked else None) \<rparr>"

definition empty_app_db :: app_db where
  "empty_app_db = \<lparr> app_db.events = [], app_db.responses = [], emitted = [], console = [] \<rparr>"

text \<open>Three rows of a CSV file; the commit of row 1 raises.\<close>

definition example_row :: "nat \<Rightarrow> csv_row" where
  "example_row i =
     \<lparr> meta_timestamp = real i, meta_src_ip = ''192.168.10.1'', meta_dst_ip = ''192.168.60.1'',
       meta_src_port = Some 50000, meta_dst_port = Some 443,
       row_log_id = (if i = 0 then ''log_0'' else if i = 1 then ''log_1'' else ''log_2''),
       add_commit = (if i = 1 then Some database_locked else None),
       prediction = Some False, update_commit = None \<rparr>"

section \<open>Stage 1 classification returns the first matching category\<close>

lemma exceeds_has_threshold:
  "has_threshold t (fn, c, k) \<Longrightarrow> exceeds f t fn c k = Inr (comparison_holds f t (fn, c, k))"
  by (auto simp: has_threshold_def exceeds_def comparison_holds_def dict_item_def dict_get_def
      split: option.splits)

lemma py_or_Inr: "py_or (Inr a) (Inr b) = Inr (a \<or> b)"
  by (cases a) (simp_all add: py_or_def)

lemma case_Inr_bool:
  "(case Inr b of Inl e \<Rightarrow> Inl e | Inr True \<Rightarrow> x | Inr False \<Rightarrow> y) = (if b then x else y)"
  by simp

lemma classify_eq_first_match:
  assumes "complete_table t"
  shows "classify_anomaly_type f t = Inr (first_match f t)"
proof -
  from assms have h:
    "has_threshold t (''Flow Bytes/s'', ''bandwidth_saturation'', ''flow_bytes_per_sec'')"
    "has_threshold t (''Flow Packets/s'', ''bandwidth_saturation'', ''flow_packets_per_sec'')"
    "has_threshold t (''Total Length of Fwd Packets'', ''throughput_anomalies'', ''total_fwd_packets'')"
    "has_threshold t (''Total Length of Bwd Packets'', ''throughput_anomalies'', ''total_bwd_packets'')"
    "has_threshold t (''Fwd Header Length'', ''unusual_header_length'', ''fwd_header_length'')"
    "has_threshold t (''Bwd Header Length'', ''unusual_header_length'', ''bwd_header_length'')"
    "has_threshold t (''Max Packet Length'', ''unusual_packet_size'', ''max_packet_length'')"
    "has_threshold t (''Packet Length Mean'', ''unusual_packet_size'', ''packet_length_mean'')"
    "has_threshold t (''Flow Duration'', ''unusual_flow_duration'', ''flow_duration'')"
    by (simp_all add: complete_table_def threshold_entries_def)
  show ?thesis
    unfolding classify_anomaly_type_def first_match_def threshold_entries_def predicate_holds_def
    by (simp only: exceeds_has_threshold[OF h(1)] exceeds_has_threshold[OF h(2)]
        exceeds_has_threshold[OF h(3)] exceeds_has_threshold[OF h(4)]
        exceeds_has_threshold[OF h(5)] exceeds_has_threshold[OF h(6)]
        exceeds_has_threshold[OF h(7)] exceeds_has_threshold[OF h(8)]
        exceeds_has_threshold[OF h(9)] py_or_Inr case_Inr_bool
        find.simps list_ex_Nil_iff list_ex_Cons_iff snd_conv fst_conv simp_thms option.map
        if_distrib[of "map_option fst"] if_distrib[of Inr] split: if_splits)
qed

lemma dict_get_zero_filled: "dict_get (zero_filled f) k 0 = dict_get f k 0"
  by (simp add: zero_filled_def dict_get_def)

lemma exceeds_zero_filled: "exceeds (zero_filled f) t fn c k = exceeds f t fn c k"
  unfolding exceeds_def dict_get_zero_filled ..

lemma classify_zero_filled:
  "classify_anomaly_type (zero_filled f) t = classify_anomaly_type f t"
  unfolding classify_anomaly_type_def exceeds_zero_filled ..

lemma first_match_Some:
  "first_match f t = Some c \<longleftrightarrow>
     (\<exists>i < length threshold_entries. fst (threshold_entries ! i) = c \<and>
        predicate_holds f t (threshold_entries ! i) \<and>
        (\<forall>j < i. \<not> predicate_holds f t (threshold_entries ! j)))"
proof -
  have "first_match f t = Some c \<longleftrightarrow>
        (\<exists>p. find (predicate_holds f t) threshold_entries = Some p \<and> fst p = c)"
    by (auto simp: first_match_def)
  also have "\<dots> \<longleftrightarrow> (\<exists>i < length threshold_entries. fst (threshold_entries ! i) = c \<and>
        predicate_holds f t (threshold_entries ! i) \<and>
        (\<forall>j < i. \<not> predicate_holds f t (threshold_entries ! j)))"
    unfolding find_Some_iff by blast
  finally show ?thesis .
qed

lemma first_match_None:
  "first_match f t = None \<longleftrightarrow> (\<forall>p \<in> set threshold_entries. \<not> predicate_holds f t p)"
  unfolding first_match_def
  by (auto simp: find_None_iff)

lemma categories_in_order:
  "map fst threshold_entries =
     [''bandwidth_saturation'', ''throughput_anomaly'', ''header_length'', ''packet_size'',
      ''flow_duration'']"
  by (simp add: threshold_entries_def)

text \<open>
  Claim C1. On a table that holds the nine configured constants, \<open>classify_anomaly_type\<close>
  never raises and returns the category of the first predicate, in the order
  bandwidth\_saturation, throughput\_anomaly, header\_length, packet\_size, flow\_duration,
  that holds: a predicate that holds while no earlier one does decides the result, so of
  two that would match the earlier-listed one wins; the result is null when none holds;
  a missing feature reads as zero; and the result is a function of the feature map and
  the table alone, so equal inputs give the equal category.
\<close>

theorem stage1_classification_first_match:
  assumes "complete_table thresholds"
  shows "classify_anomaly_type fs thresholds = Inr (first_match fs thresholds)
    \<and> map fst threshold_entries =
        [''bandwidth_saturation'', ''throughput_anomaly'', ''header_length'', ''packet_size'',
         ''flow_duration'']
    \<and> (\<forall>i < length threshold_entries.
          predicate_holds fs thresholds (threshold_entries ! i) \<and>
          (\<forall>j < i. \<not> predicate_holds fs thresholds (threshold_entries ! j)) \<longrightarrow>
          classify_anomaly_type fs thresholds = Inr (Some (fst (threshold_entries ! i))))
    \<and> ((\<forall>p \<in> set threshold_entries. \<not> predicate_holds fs thresholds p) \<longrightarrow>
          classify_anomaly_type fs thresholds = Inr None)
    \<and> classify_anomaly_type (zero_filled fs) thresholds =
        classify_anomaly_type fs thresholds
    \<and> (fs' = fs \<and> thresholds' = thresholds \<longrightarrow>
          classify_anomaly_type fs' thresholds' = classify_anomaly_type fs thresholds)"
proof -
  have eq: "classify_anomaly_type fs thresholds = Inr (first_match fs thresholds)"
    using assms by (rule classify_eq_first_match)
  have ordered: "\<forall>i < length threshold_entries.
          predicate_holds fs thresholds (threshold_entries ! i) \<and>
          (\<forall>j < i. \<not> predicate_holds fs thresholds (threshold_entries ! j)) \<longrightarrow>
          classify_anomaly_type fs thresholds = Inr (Some (fst (threshold_entries ! i)))"
    unfolding eq using first_match_Some[of fs thresholds] by blast
  have none: "(\<forall>p \<in> set threshold_entries. \<not> predicate_holds fs thresholds p) \<longrightarrow>
          classify_anomaly_type fs thresholds = Inr None"
    unfolding eq using first_match_None[of fs thresholds] by simp
  show ?thesis
    using eq categories_in_order ordered none classify_zero_filled[of fs thresholds]
    by blast
qed

text \<open>
  The theorem at the configured table and a feature map that exceeds both the
  bandwidth-saturation and the throughput thresholds, with every other feature missing.
\<close>

theorem stage1_classification_first_match_witness:
  "complete_table RCA_TYPE1_THRESHOLDS
   \<and> predicate_holds (map_of [(''Flow Bytes/s'', 2000000), (''Total Length of Fwd Packets'', 20000)])
       RCA_TYPE1_THRESHOLDS (threshold_entries ! 0)
   \<and> predicate_holds (map_of [(''Flow Bytes/s'', 2000000), (''Total Length of Fwd Packets'', 20000)])
       RCA_TYPE1_THRESHOLDS (threshold_entries ! 1)
   \<and> classify_anomaly_type
       (map_of [(''Flow Bytes/s'', 2000000), (''Total Length of Fwd Packets'', 20000)])
       RCA_TYPE1_THRESHOLDS = Inr (Some ''bandwidth_saturation'')"
proof -
  let ?f = "map_of [(''Flow Bytes/s'', 2000000::real), (''Total Length of Fwd Packets'', 20000)]"
  have c: "complete_table RCA_TYPE1_THRESHOLDS"
    by (simp add: complete_table_def threshold_entries_def has_threshold_def
        RCA_TYPE1_THRESHOLDS_def)
  have p0: "predicate_holds ?f RCA_TYPE1_THRESHOLDS (threshold_entries ! 0)"
    by (simp add: threshold_entries_def predicate_holds_def comparison_holds_def
        RCA_TYPE1_THRESHOLDS_def)
  have p1: "predicate_holds ?f RCA_TYPE1_THRESHOLDS (threshold_entries ! 1)"
    by (simp add: threshold_entries_def predicate_holds_def comparison_holds_def
        RCA_TYPE1_THRESHOLDS_def)
  have m: "first_match ?f RCA_TYPE1_THRESHOLDS = Some ''bandwidth_saturation''"
    using p0 by (simp add: first_match_def threshold_entries_def)
  from stage1_classification_first_match[OF c, of ?f]
  have "classify_anomaly_type ?f RCA_TYPE1_THRESHOLDS = Inr (first_match ?f RCA_TYPE1_THRESHOLDS)"
    by blast
  with c p0 p1 m show ?thesis by simp
qed

section \<open>Queries on a table\<close>

lemma query_first_None: "query_first P xs = None \<longleftrightarrow> (\<forall>x \<in> set xs. \<not> P x)"
  by (induction xs) (auto split: option.splits)

lemma query_first_Some:
  "query_first P xs = Some (i, y) \<Longrightarrow>
     i < length xs \<and> xs ! i = y \<and> P y \<and> (\<forall>j < i. \<not> P (xs ! j))"
proof (induction xs arbitrary: i)
  case Nil
  then show ?case by simp
next
  case (Cons x xs)
  show ?case
  proof (cases "P x")
    case True
    with Cons.prems show ?thesis by simp
  next
    case False
    with Cons.prems obtain i' where q: "query_first P xs = Some (i', y)" and i: "i = Suc i'"
      by (auto split: option.splits)
    from Cons.IH[OF q] False i show ?thesis
      by (auto simp: less_Suc_eq_0_disj)
  qed
qed

lemma query_first_append_new:
  "\<forall>x \<in> set xs. \<not> P x \<Longrightarrow> P y \<Longrightarrow> query_first P (xs @ [y]) = Some (length xs, y)"
  by (induction xs) auto

lemma query_first_exists:
  "\<exists>x \<in> set xs. P x \<Longrightarrow> \<exists>i y. query_first P xs = Some (i, y)"
  using query_first_None[of P xs] by (cases "query_first P xs") auto

section \<open>Simulated playbook executions\<close>

lemma type1_outcome: "choice (replicate 9 True @ [False]) k = Inr (k mod 10 < 9)"
proof -
  have "(replicate 9 True @ [False]) ! (k mod 10) = (k mod 10 < 9)"
    by (simp add: nth_append)
  then show ?thesis by (simp add: choice_def)
qed

lemma type2_outcome: "choice (replicate 85 True @ replicate 15 False) k = Inr (k mod 100 < 85)"
proof -
  have "k mod 100 - 85 < 15" by arith
  then have "(replicate 85 True @ replicate 15 False) ! (k mod 100) = (k mod 100 < 85)"
    by (simp add: nth_append)
  then show ?thesis by (simp add: choice_def)
qed

lemma execute_type1_known:
  "RESPONSE_PLAYBOOKS_type1 a = Some p \<Longrightarrow> p \<noteq> [] \<Longrightarrow>
   execute_type1_response a run =
     \<lparr> success = (outcome_draw run mod 10 < 9),
       response_type = type (get_type1_response_actions a),
       duration_ms = py_int ((end_time run - playbook_run.start_time run) * 1000),
       actions_taken = Some (actions (get_type1_response_actions a)),
       playbook_used = Some p, error = None \<rparr>"
  by (simp add: execute_type1_response_def type1_outcome Let_def)

lemma execute_type2_known:
  "RESPONSE_PLAYBOOKS_type2 a = Some p \<Longrightarrow> p \<noteq> [] \<Longrightarrow>
   execute_type2_response a run =
     \<lparr> success = (outcome_draw run mod 100 < 85),
       response_type = type (get_type2_response_actions a),
       duration_ms = py_int ((end_time run - playbook_run.start_time run) * 1000),
       actions_taken = Some (actions (get_type2_response_actions a)),
       playbook_used = Some p, error = None \<rparr>"
  by (simp add: execute_type2_response_def type2_outcome Let_def)

lemma execute_type1_missing:
  "RESPONSE_PLAYBOOKS_type1 a = None \<Longrightarrow> execute_type1_response a run = no_playbook a"
  by (simp add: execute_type1_response_def)

lemma execute_type2_missing:
  "RESPONSE_PLAYBOOKS_type2 a = None \<Longrightarrow> execute_type2_response a run = no_playbook a"
  by (simp add: execute_type2_response_def)

lemma stage1_categories_have_playbooks:
  "a \<in> set stage1_categories \<Longrightarrow> \<exists>p. RESPONSE_PLAYBOOKS_type1 a = Some p \<and> p \<noteq> []"
  by (auto simp: stage1_categories_def RESPONSE_PLAYBOOKS_type1_def)

text \<open>
  Every Stage 1 category has a playbook, and its execution reports the category's own
  response type.
\<close>

lemma stage1_categories_resolve:
  assumes "a \<in> set stage1_categories"
  shows "response_type (execute_type1_response a run) = type (get_type1_response_actions a)"
    and "response_type (execute_type1_response a run) \<noteq> ''unknown''"
    and "response_type (execute_type1_response a run) \<noteq> ''generic_fix''"
proof -
  from stage1_categories_have_playbooks[OF assms] obtain p
    where p: "RESPONSE_PLAYBOOKS_type1 a = Some p" "p \<noteq> []" by blast
  show 1: "response_type (execute_type1_response a run) = type (get_type1_response_actions a)"
    by (simp add: execute_type1_known[OF p])
  from assms show "response_type (execute_type1_response a run) \<noteq> ''unknown''"
    unfolding 1 by (auto simp: stage1_categories_def get_type1_response_actions_def dict_get_def)
  from assms show "response_type (execute_type1_response a run) \<noteq> ''generic_fix''"
    unfolding 1 by (auto simp: stage1_categories_def get_type1_response_actions_def dict_get_def)
qed

lemma stage1_produces_only_its_categories:
  "classify_anomaly_type f t = Inr (Some a) \<Longrightarrow> a \<in> set stage1_categories"
  by (auto simp: classify_anomaly_type_def stage1_categories_def
      split: sum.splits bool.splits)

lemma stage2_produces_only_its_categories:
  "troubleshoot_result.anomaly_type (run_troubleshooting_simulation d) = Some a \<Longrightarrow>
     a \<in> set stage2_categories"
  by (auto simp: run_troubleshooting_simulation_def check_connectivity_def
      check_interface_flapping_def check_latency_def check_error_rates_def check_packet_loss_def
      stage2_categories_def Let_def choice_def split: sum.splits if_splits)

lemma playbook_type2_missing:
  "RESPONSE_PLAYBOOKS_type2 ''high_latency'' = None"
  "RESPONSE_PLAYBOOKS_type2 ''high_error_rates'' = None"
  "RESPONSE_PLAYBOOKS_type2 ''connectivity_issues'' = None"
  by (simp_all add: RESPONSE_PLAYBOOKS_type2_def)

lemma slow_link_detected:
  "troubleshoot_result.anomaly_type (run_troubleshooting_simulation slow_link_draws) =
     Some ''high_latency''"
  by (simp add: run_troubleshooting_simulation_def slow_link_draws_def check_connectivity_def
      check_interface_flapping_def choice_def check_latency_def uniform_def Let_def)

section \<open>The two response triggers\<close>

lemma trigger1_not_found:
  assumes "query_first (\<lambda>e. event.log_id e = lid) (events db) = None"
  shows "trigger_response1_internal lid a fs aid now run db = (Failure ''Event not found'', db)"
  using assms by (simp add: trigger_response1_internal_def)

lemma trigger1_found:
  assumes "query_first (\<lambda>e. event.log_id e = lid) (events db) = Some (i, ev)"
  shows "trigger_response1_internal lid a fs aid now run db =
    (Completed aid (execute_type1_response a run),
     db\<lparr> responses := responses db @
        [new_response (next_response_id (responses db)) lid aid now ev a
           (execute_type1_response a run) fs] \<rparr>)"
  using assms by (simp add: trigger_response1_internal_def Let_def)

lemma new_response_fields:
  "response.success (new_response n lid aid now ev a res fs) = response_result.success res"
  "response.log_id (new_response n lid aid now ev a res fs) = lid"
  "response.duration_ms (new_response n lid aid now ev a res fs) =
     Some (response_result.duration_ms res)"
  "anomaly_type2 (new_response n lid aid now ev a res fs) = None"
  "res_type2 (new_response n lid aid now ev a res fs) = None"
  by (simp_all add: new_response_def set_features_def)

lemma trigger2_not_found:
  assumes "query_first (\<lambda>r. response.log_id r = lid) (responses db) = None"
  shows "trigger_response2_internal lid a run db = (Failure ''Response record not found'', db)"
  using assms by (simp add: trigger_response2_internal_def)

lemma trigger2_found:
  assumes "query_first (\<lambda>r. response.log_id r = lid) (responses db) = Some (i, row)"
  shows "trigger_response2_internal lid a run db =
    (Completed (anomaly_id row) (execute_type2_response a run),
     db\<lparr> responses := (responses db)
        [i := row\<lparr> anomaly_type2 := Some a,
                   res_type2 := Some (response_type (execute_type2_response a run)),
                   response.success :=
                     response.success row \<and>
                     response_result.success (execute_type2_response a run) \<rparr>] \<rparr>)"
  using assms by (simp add: trigger_response2_internal_def Let_def)

lemma trigger2_success_monotone:
  assumes "j < length (responses db)"
    and "response.success (responses (snd (trigger_response2_internal lid a run db)) ! j)"
  shows "response.success (responses db ! j)"
proof (cases "query_first (\<lambda>r. response.log_id r = lid) (responses db)")
  case None
  with assms show ?thesis by (simp add: trigger2_not_found)
next
  case (Some p)
  obtain i row where p: "p = (i, row)" by (cases p)
  from Some p have q: "query_first (\<lambda>r. response.log_id r = lid) (responses db) = Some (i, row)"
    by simp
  from query_first_Some[OF q] have r: "responses db ! i = row" by simp
  show ?thesis
  proof (cases "j = i")
    case True
    with assms r show ?thesis by (simp add: trigger2_found[OF q])
  next
    case False
    with assms show ?thesis by (simp add: trigger2_found[OF q])
  qed
qed

lemma example_event_found:
  "query_first (\<lambda>e. event.log_id e = ''log_a'') (events example_db) = Some (0, example_event)"
  by (simp add: example_db_def example_event_def)

lemma example_no_response_yet:
  "\<forall>r \<in> set (responses example_db). response.log_id r \<noteq> ''log_a''"
  by (simp add: example_db_def other_response_def)

lemma example_next_id: "next_response_id (responses example_db) = 2"
  by (simp add: example_db_def next_response_id_def other_response_def)

lemma example_stage1_rows:
  "responses example_db_stage1 =
     [other_response,
      new_response 2 ''log_a'' ''anomaly_a'' 1 example_event ''bandwidth_saturation''
        (execute_type1_response ''bandwidth_saturation'' run_ok) example_features]"
proof -
  have "responses example_db_stage1 = responses example_db @
      [new_response (next_response_id (responses example_db)) ''log_a'' ''anomaly_a'' 1
         example_event ''bandwidth_saturation''
         (execute_type1_response ''bandwidth_saturation'' run_ok) example_features]"
    unfolding example_db_stage1_def trigger1_found[OF example_event_found] by simp
  then show ?thesis
    unfolding example_next_id by (simp add: example_db_def)
qed

lemma example_stage1_found:
  "query_first (\<lambda>r. response.log_id r = ''log_a'') (responses example_db_stage1) =
     Some (1, new_response 2 ''log_a'' ''anomaly_a'' 1 example_event ''bandwidth_saturation''
        (execute_type1_response ''bandwidth_saturation'' run_ok) example_features)"
  by (simp add: example_stage1_rows other_response_def new_response_fields)

lemma example_outcomes:
  "response_result.success (execute_type1_response ''bandwidth_saturation'' run_ok)"
  "response_result.duration_ms (execute_type1_response ''bandwidth_saturation'' run_ok) = 3000"
  "\<not> response_result.success (execute_type2_response ''packet_loss'' run_failed)"
  "response_result.duration_ms (execute_type2_response ''packet_loss'' run_failed) = 5000"
  "response_result.success (execute_type2_response ''packet_loss'' run_ok)"
  by (simp_all add: execute_type1_known[of _ "''response/playbooks/type1/bandwidth_saturation_fix.yml''"]
      execute_type2_known[of _ "''response/playbooks/type2/packet_loss_fix.yml''"]
      RESPONSE_PLAYBOOKS_type1_def RESPONSE_PLAYBOOKS_type2_def run_ok_def run_failed_def
      py_int_def)

section \<open>Stage 2 before Stage 1\<close>

text \<open>
  Claim C2. When no response row carries the flow identifier, the Stage 2 trigger
  returns the failure \<open>Response record not found\<close> and the store it returns is the
  store it was given: no row is created and none is modified.
\<close>

theorem stage2_without_stage1_row_fails:
  assumes "\<forall>r \<in> set (responses db). response.log_id r \<noteq> lid"
  shows "trigger_response2_internal lid category run db =
           (Failure ''Response record not found'', db)"
proof -
  from assms have "query_first (\<lambda>r. response.log_id r = lid) (responses db) = None"
    by (simp add: query_first_None)
  then show ?thesis by (rule trigger2_not_found)
qed

theorem stage2_without_stage1_row_fails_witness:
  "map response.log_id (responses example_db) = [''log_b'']
   \<and> responses example_db = [other_response]
   \<and> trigger_response2_internal ''log_a'' ''packet_loss'' run_ok example_db =
       (Failure ''Response record not found'', example_db)"
  using stage2_without_stage1_row_fails[OF example_no_response_yet, of "''packet_loss''" run_ok]
    example_no_response_yet
  by (simp add: example_db_def other_response_def)

section \<open>The overall success flag\<close>

text \<open>
  Claim C3. Stage 1's write sets \<open>success\<close> to Stage 1's simulated outcome; Stage 2's
  update sets it to the conjunction of its previous value and Stage 2's outcome, so a
  failure makes it false and a success leaves it as it was; no Stage 2 update turns a
  false \<open>success\<close> of any row into true; and for a flow with an event row and no earlier
  response row, after Stage 1 and then Stage 2 the flow's row has \<open>success\<close> equal to the
  conjunction of the two outcomes.
\<close>

theorem success_is_conjunction_of_stage_outcomes:
  fixes db :: database and a1 a2 lid aid :: string and run1 run2 :: playbook_run
    and fs :: "(string \<times> real) list" and now :: datetime
  defines "s1 \<equiv> response_result.success (execute_type1_response a1 run1)"
    and "s2 \<equiv> response_result.success (execute_type2_response a2 run2)"
    and "db1 \<equiv> snd (trigger_response1_internal lid a1 fs aid now run1 db)"
  shows "((\<exists>e \<in> set (events db). event.log_id e = lid) \<longrightarrow>
            length (responses db1) = Suc (length (responses db)) \<and>
            response.success (last (responses db1)) = s1)
    \<and> (\<forall>i row. query_first (\<lambda>r. response.log_id r = lid) (responses db) = Some (i, row) \<longrightarrow>
            response.success (responses (snd (trigger_response2_internal lid a2 run2 db)) ! i) =
              (response.success row \<and> s2))
    \<and> (\<forall>j < length (responses db).
            response.success (responses (snd (trigger_response2_internal lid a2 run2 db)) ! j) \<longrightarrow>
            response.success (responses db ! j))
    \<and> ((\<exists>e \<in> set (events db). event.log_id e = lid) \<and>
        (\<forall>r \<in> set (responses db). response.log_id r \<noteq> lid) \<longrightarrow>
            response.log_id (last (responses (snd (trigger_response2_internal lid a2 run2 db1)))) = lid \<and>
            response.success (last (responses (snd (trigger_response2_internal lid a2 run2 db1)))) =
              (s1 \<and> s2))"
proof -
  have stage1: "length (responses db1) = Suc (length (responses db)) \<and>
      response.success (last (responses db1)) = s1 \<and>
      (\<exists>row. responses db1 = responses db @ [row] \<and> response.log_id row = lid \<and>
         response.success row = s1)"
    if "\<exists>e \<in> set (events db). event.log_id e = lid"
  proof -
    from query_first_exists[OF that] obtain i ev
      where q: "query_first (\<lambda>e. event.log_id e = lid) (events db) = Some (i, ev)" by blast
    show ?thesis
      unfolding db1_def s1_def trigger1_found[OF q] by (simp add: new_response_fields)
  qed
  have stage2: "response.success (responses (snd (trigger_response2_internal lid a2 run2 d)) ! i) =
      (response.success row \<and> s2)"
    if q: "query_first (\<lambda>r. response.log_id r = lid) (responses d) = Some (i, row)"
    for d i row
  proof -
    from query_first_Some[OF q] have "i < length (responses d)" by simp
    then show ?thesis unfolding s2_def trigger2_found[OF q] by simp
  qed
  have monotone: "\<forall>j < length (responses db).
      response.success (responses (snd (trigger_response2_internal lid a2 run2 db)) ! j) \<longrightarrow>
      response.success (responses db ! j)"
    using trigger2_success_monotone by blast
  have both: "response.log_id (last (responses (snd (trigger_response2_internal lid a2 run2 db1)))) = lid \<and>
      response.success (last (responses (snd (trigger_response2_internal lid a2 run2 db1)))) =
        (s1 \<and> s2)"
    if ev: "\<exists>e \<in> set (events db). event.log_id e = lid"
      and fresh: "\<forall>r \<in> set (responses db). response.log_id r \<noteq> lid"
  proof -
    from stage1[OF ev] obtain row where row: "responses db1 = responses db @ [row]"
      "response.log_id row = lid" "response.success row = s1" by blast
    from fresh row have q: "query_first (\<lambda>r. response.log_id r = lid) (responses db1) =
        Some (length (responses db), row)"
      by (simp add: query_first_append_new)
    show ?thesis
      unfolding trigger2_found[OF q] using row by (simp add: s2_def)
  qed
  from stage1 stage2 monotone both show ?thesis by blast
qed

text \<open>
  The theorem on the example store: Stage 1 succeeds for flow \<open>log_a\<close>, Stage 2 fails,
  and the flow's row ends with \<open>success\<close> false.
\<close>

theorem success_is_conjunction_of_stage_outcomes_witness:
  "map event.log_id (events example_db) = [''log_a'']
   \<and> map response.log_id (responses example_db) = [''log_b'']
   \<and> response_result.success (execute_type1_response ''bandwidth_saturation'' run_ok)
   \<and> \<not> response_result.success (execute_type2_response ''packet_loss'' run_failed)
   \<and> response.success (last (responses example_db_stage1))
   \<and> \<not> response.success (last (responses
         (snd (trigger_response2_internal ''log_a'' ''packet_loss'' run_failed example_db_stage1))))"
proof -
  have ev: "\<exists>e \<in> set (events example_db). event.log_id e = ''log_a''"
    by (simp add: example_db_def example_event_def)
  note inst = success_is_conjunction_of_stage_outcomes[where db = example_db
      and lid = "''log_a''" and ?a1.0 = "''bandwidth_saturation''" and fs = example_features
      and aid = "''anomaly_a''" and now = 1 and ?run1.0 = run_ok and ?a2.0 = "''packet_loss''"
      and ?run2.0 = run_failed, folded example_db_stage1_def]
  have ids: "map event.log_id (events example_db) = [''log_a'']"
    "map response.log_id (responses example_db) = [''log_b'']"
    by (simp_all add: example_db_def example_event_def other_response_def)
  from inst ev example_no_response_yet example_outcomes ids show ?thesis by blast
qed

section \<open>The frame of the Stage 2 update\<close>

text \<open>
  Claim C9. A Stage 2 update that finds the row of the flow writes \<open>anomaly_type2\<close> and
  \<open>res_type2\<close>, and sets \<open>success\<close> to false when the simulated outcome is a failure;
  every other field of the row keeps its value, the table keeps its length, every other
  row is the row it was, and the events table is unchanged.
\<close>

theorem stage2_update_in_place:
  fixes db :: database and category :: string and run :: playbook_run
  assumes "query_first (\<lambda>r. response.log_id r = lid) (responses db) = Some (i, row)"
  defines "result \<equiv> execute_type2_response category run"
    and "db' \<equiv> snd (trigger_response2_internal lid category run db)"
  shows "length (responses db') = length (responses db)
    \<and> events db' = events db
    \<and> (\<forall>j < length (responses db). j \<noteq> i \<longrightarrow> responses db' ! j = responses db ! j)
    \<and> anomaly_type2 (responses db' ! i) = Some category
    \<and> res_type2 (responses db' ! i) = Some (response_type result)
    \<and> response.success (responses db' ! i) =
        (if response_result.success result then response.success row else False)
    \<and> response.row_id (responses db' ! i) = response.row_id row
    \<and> response.log_id (responses db' ! i) = response.log_id row
    \<and> anomaly_id (responses db' ! i) = anomaly_id row
    \<and> response.timestamp (responses db' ! i) = response.timestamp row
    \<and> response.src_ip (responses db' ! i) = response.src_ip row
    \<and> response.dst_ip (responses db' ! i) = response.dst_ip row
    \<and> response.src_port (responses db' ! i) = response.src_port row
    \<and> response.dst_port (responses db' ! i) = response.dst_port row
    \<and> anomaly_type1 (responses db' ! i) = anomaly_type1 row
    \<and> res_type1 (responses db' ! i) = res_type1 row
    \<and> re_features (responses db' ! i) = re_features row
    \<and> response.duration_ms (responses db' ! i) = response.duration_ms row"
proof -
  from query_first_Some[OF assms(1)] have i: "i < length (responses db)" by simp
  show ?thesis
    unfolding db'_def result_def trigger2_found[OF assms(1)] using i by simp
qed

theorem stage2_update_in_place_witness:
  "query_first (\<lambda>r. response.log_id r = ''log_a'') (responses example_db_stage1) =
     Some (1, new_response 2 ''log_a'' ''anomaly_a'' 1 example_event ''bandwidth_saturation''
        (execute_type1_response ''bandwidth_saturation'' run_ok) example_features)
   \<and> length (responses
        (snd (trigger_response2_internal ''log_a'' ''packet_loss'' run_failed example_db_stage1))) = 2
   \<and> responses
        (snd (trigger_response2_internal ''log_a'' ''packet_loss'' run_failed example_db_stage1)) ! 0
       = other_response
   \<and> anomaly_type2 (responses
        (snd (trigger_response2_internal ''log_a'' ''packet_loss'' run_failed example_db_stage1)) ! 1)
       = Some ''packet_loss''
   \<and> response.duration_ms (responses
        (snd (trigger_response2_internal ''log_a'' ''packet_loss'' run_failed example_db_stage1)) ! 1)
       = Some 3000"
  using stage2_update_in_place[OF example_stage1_found, of "''packet_loss''" run_failed]
    example_stage1_found example_outcomes
  by (simp add: example_stage1_rows new_response_fields)

section \<open>Execution durations on a response row\<close>

lemma example_stage2_rows:
  "responses example_db_stage2 =
     [other_response,
      (new_response 2 ''log_a'' ''anomaly_a'' 1 example_event ''bandwidth_saturation''
        (execute_type1_response ''bandwidth_saturation'' run_ok) example_features)
      \<lparr> anomaly_type2 := Some ''packet_loss'',
        res_type2 := Some (response_type (execute_type2_response ''packet_loss'' run_failed)),
        response.success := False \<rparr>]"
  unfolding example_db_stage2_def trigger2_found[OF example_stage1_found]
  by (simp add: example_stage1_rows example_outcomes)

lemma to_dict_keys:
  "map fst (to_dict r) =
     [''id'', ''log_id'', ''anomaly_id'', ''timestamp'', ''src_ip'', ''dst_ip'', ''src_port'',
      ''dst_port'', ''anomaly_type1'', ''re_features'', ''res_type1'', ''anomaly_type2'',
      ''res_type2'', ''success'', ''duration_ms'']"
  by (simp add: to_dict_def)

lemma trigger2_keeps_duration:
  assumes "j < length (responses db)"
  shows "response.duration_ms (responses (snd (trigger_response2_internal lid a run db)) ! j) =
         response.duration_ms (responses db ! j)"
proof (cases "query_first (\<lambda>r. response.log_id r = lid) (responses db)")
  case None
  then show ?thesis by (simp add: trigger2_not_found)
next
  case (Some p)
  obtain i row where p: "p = (i, row)" by (cases p)
  from Some p have q: "query_first (\<lambda>r. response.log_id r = lid) (responses db) = Some (i, row)"
    by simp
  from query_first_Some[OF q] have r: "responses db ! i = row" by simp
  show ?thesis
  proof (cases "j = i")
    case True
    with assms r show ?thesis by (simp add: trigger2_found[OF q])
  next
    case False
    with assms show ?thesis by (simp add: trigger2_found[OF q])
  qed
qed

text \<open>
  Claim C8, refuted as stated. On the example store, after Stage 1 (which took 3000 ms)
  and Stage 2 (which took 5000 ms) the serialized row of the flow has neither a
  \<open>duration_ms_stage1\<close> nor a \<open>duration_ms_stage2\<close> key, and its one duration field
  holds Stage 1's 3000 ms.
\<close>

theorem per_stage_duration_counterexample:
  "''duration_ms_stage1'' \<notin> set (map fst (to_dict (responses example_db_stage2 ! 1)))
   \<and> ''duration_ms_stage2'' \<notin> set (map fst (to_dict (responses example_db_stage2 ! 1)))
   \<and> response_result.duration_ms (execute_type2_response ''packet_loss'' run_failed) = 5000
   \<and> response.duration_ms (responses example_db_stage2 ! 1) = Some 3000"
  by (simp add: to_dict_keys example_stage2_rows example_outcomes new_response_fields)

text \<open>
  Claim C8, amended. A response row carries one execution duration, \<open>duration_ms\<close>:
  the serialized record has the fifteen keys \<open>id\<close> to \<open>duration_ms\<close> and no per-stage
  duration key, and under \<open>duration_ms\<close> it gives the row's field; Stage 1's write puts
  Stage 1's own execution duration there; and when Stage 2 completes its update the
  field of every row is what it was before, so the record still holds Stage 1's
  duration and Stage 2's is not stored in it.
\<close>

theorem single_duration_field:
  fixes db :: database
  shows "map fst (to_dict r) =
       [''id'', ''log_id'', ''anomaly_id'', ''timestamp'', ''src_ip'', ''dst_ip'', ''src_port'',
        ''dst_port'', ''anomaly_type1'', ''re_features'', ''res_type1'', ''anomaly_type2'',
        ''res_type2'', ''success'', ''duration_ms'']
    \<and> map_of (to_dict r) ''duration_ms'' = Some (json_opt JInt (response.duration_ms r))
    \<and> ((\<exists>e \<in> set (events db). event.log_id e = lid) \<longrightarrow>
          response.duration_ms
            (last (responses (snd (trigger_response1_internal lid a1 fs aid now run1 db)))) =
          Some (response_result.duration_ms (execute_type1_response a1 run1)))
    \<and> (\<forall>j < length (responses db).
          response.duration_ms (responses (snd (trigger_response2_internal lid a2 run2 db)) ! j) =
          response.duration_ms (responses db ! j))"
proof -
  have keys: "map fst (to_dict r) =
       [''id'', ''log_id'', ''anomaly_id'', ''timestamp'', ''src_ip'', ''dst_ip'', ''src_port'',
        ''dst_port'', ''anomaly_type1'', ''re_features'', ''res_type1'', ''anomaly_type2'',
        ''res_type2'', ''success'', ''duration_ms'']"
    by (rule to_dict_keys)
  have field: "map_of (to_dict r) ''duration_ms'' = Some (json_opt JInt (response.duration_ms r))"
    by (simp add: to_dict_def)
  have stage1: "response.duration_ms
        (last (responses (snd (trigger_response1_internal lid a1 fs aid now run1 db)))) =
      Some (response_result.duration_ms (execute_type1_response a1 run1))"
    if "\<exists>e \<in> set (events db). event.log_id e = lid"
  proof -
    from query_first_exists[OF that] obtain i ev
      where q: "query_first (\<lambda>e. event.log_id e = lid) (events db) = Some (i, ev)" by blast
    show ?thesis unfolding trigger1_found[OF q] by (simp add: new_response_fields)
  qed
  have stage2: "\<forall>j < length (responses db).
      response.duration_ms (responses (snd (trigger_response2_internal lid a2 run2 db)) ! j) =
      response.duration_ms (responses db ! j)"
    using trigger2_keeps_duration by blast
  from keys field stage1 stage2 show ?thesis by blast
qed

theorem single_duration_field_witness:
  "map event.log_id (events example_db) = [''log_a'']
   \<and> response.duration_ms (last (responses example_db_stage1)) = Some 3000
   \<and> length (responses example_db_stage1) = 2
   \<and> response.duration_ms (responses example_db_stage2 ! 1) = Some 3000
   \<and> map_of (to_dict (responses example_db_stage2 ! 1)) ''duration_ms'' = Some (JInt 3000)"
proof -
  have ev: "\<exists>e \<in> set (events example_db). event.log_id e = ''log_a''"
    by (simp add: example_db_def example_event_def)
  have ids: "map event.log_id (events example_db) = [''log_a'']"
    by (simp add: example_db_def example_event_def)
  have len: "length (responses example_db_stage1) = 2"
    by (simp add: example_stage1_rows)
  note inst = single_duration_field[where db = example_db and lid = "''log_a''"
      and ?a1.0 = "''bandwidth_saturation''" and fs = example_features
      and aid = "''anomaly_a''" and now = 1 and ?run1.0 = run_ok,
      folded example_db_stage1_def]
  from inst ev have d1: "response.duration_ms (last (responses example_db_stage1)) =
      Some (response_result.duration_ms (execute_type1_response ''bandwidth_saturation'' run_ok))"
    by blast
  note inst2 = single_duration_field[where db = example_db_stage1 and lid = "''log_a''"
      and ?a2.0 = "''packet_loss''" and ?run2.0 = run_failed
      and r = "responses example_db_stage2 ! 1", folded example_db_stage2_def]
  from inst2 len have d2: "response.duration_ms (responses example_db_stage2 ! 1) =
      response.duration_ms (responses example_db_stage1 ! 1)"
    by simp
  from inst2 have d3: "map_of (to_dict (responses example_db_stage2 ! 1)) ''duration_ms'' =
      Some (json_opt JInt (response.duration_ms (responses example_db_stage2 ! 1)))"
    by blast
  have last1: "last (responses example_db_stage1) = responses example_db_stage1 ! 1"
    by (simp add: example_stage1_rows)
  from ids len d1 d2 d3 last1 show ?thesis
    by (simp add: example_outcomes json_opt_def)
qed

section \<open>Categories of Stage 2 without a playbook\<close>

lemma stage2_latency_row:
  "snd (analyze_network_troubleshooting ''log_a'' slow_link_draws run_ok example_db_stage1) =
     snd (trigger_response2_internal ''log_a'' ''high_latency'' run_ok example_db_stage1)"
proof -
  have ev: "query_first (\<lambda>e. event.log_id e = ''log_a'') (events example_db_stage1) =
      Some (0, example_event)"
    unfolding example_db_stage1_def trigger1_found[OF example_event_found]
    using example_event_found by simp
  show ?thesis
    by (simp add: analyze_network_troubleshooting_def ev slow_link_detected
        split: prod.splits)
qed

text \<open>
  Claim C5, evaluated where the code departs from it. The latency check of Stage 2
  reports the category \<open>high_latency\<close>; the table \<open>RESPONSE_PLAYBOOKS['type2']\<close> is
  keyed \<open>latency\<close>, \<open>error_rate\<close> and \<open>connectivity\<close>, so for \<open>high_latency\<close>,
  \<open>high_error_rates\<close> and \<open>connectivity_issues\<close> the Stage 2 executor returns the
  failure with response type \<open>unknown\<close> without executing, although the action table
  names \<open>latency_mitigation\<close> for the category, and the row of the flow ends with
  \<open>success\<close> false whatever outcome would have been drawn. A category unknown to
  Stage 1 takes the same failure path and not the generic fallback action. Every
  category of Stage 1 has a playbook; of the five of Stage 2 only \<open>packet_loss\<close> and
  \<open>flapping_links\<close> have one.
\<close>

theorem stage2_category_without_playbook:
  "troubleshoot_result.anomaly_type (run_troubleshooting_simulation slow_link_draws) =
     Some ''high_latency''
   \<and> execute_type2_response ''high_latency'' run = no_playbook ''high_latency''
   \<and> execute_type2_response ''high_error_rates'' run = no_playbook ''high_error_rates''
   \<and> execute_type2_response ''connectivity_issues'' run = no_playbook ''connectivity_issues''
   \<and> response_type (no_playbook c) = ''unknown''
   \<and> \<not> response_result.success (no_playbook c)
   \<and> type (get_type2_response_actions ''high_latency'') = ''latency_mitigation''
   \<and> execute_type1_response ''memory_leak'' run = no_playbook ''memory_leak''
   \<and> map (\<lambda>a. RESPONSE_PLAYBOOKS_type1 a = None) stage1_categories =
       [False, False, False, False, False]
   \<and> map (\<lambda>a. RESPONSE_PLAYBOOKS_type2 a = None) stage2_categories =
       [True, True, True, False, False]
   \<and> response.success (responses example_db_stage1 ! 1)
   \<and> \<not> response.success
         (responses (snd (analyze_network_troubleshooting ''log_a'' slow_link_draws run_ok
            example_db_stage1)) ! 1)"
proof -
  have row: "\<not> response.success
      (responses (snd (analyze_network_troubleshooting ''log_a'' slow_link_draws run_ok
         example_db_stage1)) ! 1)"
    unfolding stage2_latency_row trigger2_found[OF example_stage1_found]
    by (simp add: example_stage1_rows execute_type2_missing playbook_type2_missing
        no_playbook_def)
  have before: "response.success (responses example_db_stage1 ! 1)"
    by (simp add: example_stage1_rows new_response_fields example_outcomes)
  have unknown1: "execute_type1_response ''memory_leak'' run = no_playbook ''memory_leak''"
    by (simp add: execute_type1_missing RESPONSE_PLAYBOOKS_type1_def)
  have action: "type (get_type2_response_actions ''high_latency'') = ''latency_mitigation''"
    by (simp add: get_type2_response_actions_def dict_get_def)
  have tables: "map (\<lambda>a. RESPONSE_PLAYBOOKS_type1 a = None) stage1_categories =
       [False, False, False, False, False]"
    "map (\<lambda>a. RESPONSE_PLAYBOOKS_type2 a = None) stage2_categories =
       [True, True, True, False, False]"
    by (simp_all add: stage1_categories_def stage2_categories_def RESPONSE_PLAYBOOKS_type1_def
        RESPONSE_PLAYBOOKS_type2_def)
  from row before unknown1 action slow_link_detected tables show ?thesis
    by (simp add: execute_type2_missing playbook_type2_missing no_playbook_def)
qed

section \<open>Lifecycle: start, stop and uptime\<close>

lemma started_generator_fields:
  "is_running started_generator"
  "log_generator.start_time started_generator = Some 10"
  "stop_time started_generator = None"
  "generation_thread started_generator = Some 1"
  by (simp_all add: started_generator_def start_generation_def new_log_generator_def Let_def)

lemma stopped_generator_fields:
  "\<not> is_running stopped_generator"
  "log_generator.start_time stopped_generator = Some 10"
  "stop_time stopped_generator = Some 25"
  by (simp_all add: stopped_generator_def stop_generation_def started_generator_fields Let_def)

lemma get_uptime_running:
  "is_running g \<Longrightarrow> log_generator.start_time g = Some t0 \<Longrightarrow> get_uptime now g = now - t0"
  by (simp add: get_uptime_def)

lemma get_uptime_stopped:
  "\<not> is_running g \<Longrightarrow>
   get_uptime now g =
     (case (log_generator.start_time g, stop_time g) of
        (Some t0, Some t1) \<Rightarrow> t1 - t0
      | _ \<Rightarrow> 0)"
  by (simp add: get_uptime_def split: option.splits bool.splits)

lemma stop_generation_running:
  "is_running g \<Longrightarrow>
   fst (snd (stop_generation t1 g)) = g\<lparr> is_running := False, stop_time := Some t1 \<rparr>"
  by (simp add: stop_generation_def Let_def)

text \<open>
  Claim C4, refuted as stated. The generator started at second 10 and stopped at second
  25 is not running, and its uptime query at second 40 returns the 15 seconds of the
  last session, not zero.
\<close>

theorem uptime_after_stop_counterexample:
  "\<not> is_running stopped_generator
   \<and> get_uptime 40 stopped_generator = 15
   \<and> get_uptime 40 stopped_generator \<noteq> 0"
  by (simp add: get_uptime_stopped stopped_generator_fields)

text \<open>
  Claim C4, amended. The state manager's uptime query returns the time elapsed since
  the recorded start while monitoring, and zero when not monitoring: after
  \<open>set_monitoring(False)\<close> it is zero. The generator's uptime query returns the time
  elapsed since the recorded start while running; when not running it returns the
  duration of the last session, stop time minus start time, once a session has been
  started and stopped, and zero only when there is no such session.
\<close>

theorem uptime_of_state_manager_and_generator:
  "state_manager_get_uptime now (set_monitoring True t0 sm) = now - t0
   \<and> state_manager_get_uptime now (set_monitoring False t1 sm) = 0
   \<and> state_manager_get_uptime now new_state_manager = 0
   \<and> (is_running g \<and> log_generator.start_time g = Some t0 \<longrightarrow> get_uptime now g = now - t0)
   \<and> (\<not> is_running g \<longrightarrow>
        get_uptime now g =
          (case (log_generator.start_time g, stop_time g) of
             (Some t0, Some t1) \<Rightarrow> t1 - t0
           | _ \<Rightarrow> 0))
   \<and> (is_running g \<and> log_generator.start_time g = Some t0 \<longrightarrow>
        \<not> is_running (fst (snd (stop_generation t1 g))) \<and>
        get_uptime now (fst (snd (stop_generation t1 g))) = t1 - t0)
   \<and> get_uptime now new_log_generator = 0"
proof -
  have sm: "state_manager_get_uptime now (set_monitoring True t0 sm) = now - t0"
    "state_manager_get_uptime now (set_monitoring False t1 sm) = 0"
    "state_manager_get_uptime now new_state_manager = 0"
    by (simp_all add: state_manager_get_uptime_def set_monitoring_def new_state_manager_def)
  have stop: "\<not> is_running (fst (snd (stop_generation t1 g))) \<and>
      get_uptime now (fst (snd (stop_generation t1 g))) = t1 - t0"
    if "is_running g" "log_generator.start_time g = Some t0"
    using that by (simp add: stop_generation_running get_uptime_stopped)
  have fresh: "get_uptime now new_log_generator = 0"
    by (simp add: get_uptime_def new_log_generator_def)
  from sm stop fresh get_uptime_running[of g t0 now] get_uptime_stopped[of g now]
  show ?thesis by blast
qed

theorem uptime_of_state_manager_and_generator_witness:
  "is_running started_generator
   \<and> log_generator.start_time started_generator = Some 10
   \<and> get_uptime 18 started_generator = 8
   \<and> fst (snd (stop_generation 25 started_generator)) = stopped_generator
   \<and> \<not> is_running stopped_generator
   \<and> get_uptime 40 stopped_generator = 15
   \<and> state_manager_get_uptime 40 (set_monitoring False 25 (set_monitoring True 10 new_state_manager)) = 0"
proof -
  note inst = uptime_of_state_manager_and_generator[where g = started_generator
      and ?t0.0 = 10 and ?t1.0 = 25, folded stopped_generator_def]
  from inst[where now = 18] started_generator_fields
  have a: "get_uptime 18 started_generator = 8" by simp
  from inst[where now = 40] started_generator_fields
  have b: "\<not> is_running stopped_generator \<and> get_uptime 40 stopped_generator = 15" by simp
  from inst[where now = 40 and sm = "set_monitoring True 10 new_state_manager"]
  have c: "state_manager_get_uptime 40
      (set_monitoring False 25 (set_monitoring True 10 new_state_manager)) = 0" by blast
  from a b c started_generator_fields show ?thesis
    by (simp add: stopped_generator_def)
qed

text \<open>
  Claim C6. Starting a running generator returns \<open>False\<close>, which the route reports as
  status 400 with the error \<open>System already running\<close>, and leaves every field of the
  generator, the running flag and the start time among them, as it was and sends
  nothing; stopping a generator that is not running returns \<open>False\<close>, reported as
  status 400 with the error \<open>System not running\<close>, and leaves the generator as it was.
  Both operations return a result in every state.
\<close>

theorem start_and_stop_fail_without_effect:
  "(is_running g \<longrightarrow>
      start_generation now thread g = (False, g, []) \<and>
      start_system now thread g = ((400, [(''error'', ''System already running'')]), g, []))
   \<and> (\<not> is_running g \<longrightarrow>
      stop_generation now g = (False, g, []) \<and>
      stop_system now g = ((400, [(''error'', ''System not running'')]), g, []))
   \<and> (\<not> is_running g \<longrightarrow>
      fst (start_generation now thread g) \<and>
      \<not> fst (start_generation now' thread' (fst (snd (start_generation now thread g)))))
   \<and> (\<exists>ok g' sent. start_generation now thread g = (ok, g', sent))
   \<and> (\<exists>ok g' sent. stop_generation now g = (ok, g', sent))"
proof -
  have twice: "fst (start_generation now thread g) \<and>
      \<not> fst (start_generation now' thread' (fst (snd (start_generation now thread g))))"
    if "\<not> is_running g"
    using that by (simp add: start_generation_def Let_def)
  have start: "start_generation now thread g = (False, g, []) \<and>
      start_system now thread g = ((400, [(''error'', ''System already running'')]), g, [])"
    if "is_running g"
    using that by (simp add: start_generation_def start_system_def)
  have stop: "stop_generation now g = (False, g, []) \<and>
      stop_system now g = ((400, [(''error'', ''System not running'')]), g, [])"
    if "\<not> is_running g"
    using that by (simp add: stop_generation_def stop_system_def)
  have total: "\<exists>ok g' sent. start_generation now thread g = (ok, g', sent)"
    "\<exists>ok g' sent. stop_generation now g = (ok, g', sent)"
    by (metis prod_cases3)+
  from twice start stop total show ?thesis by blast
qed

theorem start_and_stop_fail_without_effect_witness:
  "is_running started_generator
   \<and> start_generation 12 2 started_generator = (False, started_generator, [])
   \<and> start_system 12 2 started_generator =
       ((400, [(''error'', ''System already running'')]), started_generator, [])
   \<and> \<not> is_running new_log_generator
   \<and> stop_generation 12 new_log_generator = (False, new_log_generator, [])
   \<and> stop_system 12 new_log_generator =
       ((400, [(''error'', ''System not running'')]), new_log_generator, [])
   \<and> \<not> is_running stopped_generator
   \<and> stop_system 30 stopped_generator =
       ((400, [(''error'', ''System not running'')]), stopped_generator, [])"
proof -
  have n: "\<not> is_running new_log_generator" by (simp add: new_log_generator_def)
  from start_and_stop_fail_without_effect[of started_generator 12 2] started_generator_fields(1)
  have a: "start_generation 12 2 started_generator = (False, started_generator, []) \<and>
      start_system 12 2 started_generator =
        ((400, [(''error'', ''System already running'')]), started_generator, [])"
    by blast
  from start_and_stop_fail_without_effect[of new_log_generator 12] n
  have b: "stop_generation 12 new_log_generator = (False, new_log_generator, []) \<and>
      stop_system 12 new_log_generator =
        ((400, [(''error'', ''System not running'')]), new_log_generator, [])"
    by blast
  from start_and_stop_fail_without_effect[of stopped_generator 30] stopped_generator_fields(1)
  have c: "stop_system 30 stopped_generator =
        ((400, [(''error'', ''System not running'')]), stopped_generator, [])"
    by blast
  from a b c n started_generator_fields(1) stopped_generator_fields(1) show ?thesis by blast
qed

section \<open>The feature payload of a generated flow record\<close>

lemma important_features_length: "length IMPORTANT_FEATURES = 35"
  by (simp add: IMPORTANT_FEATURES_def)

lemma important_features_distinct: "distinct IMPORTANT_FEATURES"
  by (simp add: IMPORTANT_FEATURES_def)

lemma realistic_keys: "map fst (generate_realistic_features ru ri) = IMPORTANT_FEATURES"
  by (simp add: generate_realistic_features_def IMPORTANT_FEATURES_def)

lemma realistic_finite:
  "list_all is_finite_number (map snd (generate_realistic_features ru ri))"
  by (simp add: generate_realistic_features_def)

lemma row_keys:
  assumes "generate_network_row device_ips vlan_ips now ru ri = Inr row"
  shows "map fst row = metadata_columns @ IMPORTANT_FEATURES"
  using assms
  by (auto simp: generate_network_row_def Let_def metadata_columns_def IMPORTANT_FEATURES_def
      split: sum.splits)

lemma row_features_finite:
  assumes "generate_network_row device_ips vlan_ips now ru ri = Inr row"
  shows "list_all is_finite_number (map snd (drop 5 row))"
  using assms
  by (auto simp: generate_network_row_def Let_def split: sum.splits)

lemma filter_keys_append:
  assumes "map fst row = ms @ fs" and "set fs \<inter> set ms = {}"
  shows "filter (\<lambda>(k, v). k \<notin> set ms) row = drop (length ms) row"
proof -
  have *: "filter (\<lambda>(k, v). k \<notin> set ms) xs = []" if "set (map fst xs) \<subseteq> set ms"
    for xs :: "('a \<times> 'b) list"
    using that by (induction xs) auto
  have **: "filter (\<lambda>(k, v). k \<notin> set ms) xs = xs" if "set (map fst xs) \<inter> set ms = {}"
    for xs :: "('a \<times> 'b) list"
    using that by (induction xs) auto
  have row: "row = take (length ms) row @ drop (length ms) row" by simp
  from assms(1) have t: "map fst (take (length ms) row) = ms"
    by (metis append_eq_conv_conj take_map)
  from assms(1) have d: "map fst (drop (length ms) row) = fs"
    by (metis append_eq_conv_conj drop_map)
  have "filter (\<lambda>(k, v). k \<notin> set ms) row =
      filter (\<lambda>(k, v). k \<notin> set ms) (take (length ms) row) @
      filter (\<lambda>(k, v). k \<notin> set ms) (drop (length ms) row)"
    by (subst row) (simp only: filter_append)
  also have "\<dots> = drop (length ms) row"
    using *[of "take (length ms) row"] **[of "drop (length ms) row"] t d assms(2) by simp
  finally show ?thesis .
qed

lemma features_not_metadata: "set IMPORTANT_FEATURES \<inter> set metadata_columns = {}"
  by (simp add: IMPORTANT_FEATURES_def metadata_columns_def)

lemma row_payload:
  assumes "generate_network_row device_ips vlan_ips now ru ri = Inr row"
  shows "feature_payload row = drop 5 row"
proof -
  have "length metadata_columns = 5" by (simp add: metadata_columns_def)
  with filter_keys_append[OF row_keys[OF assms] features_not_metadata]
  show ?thesis by (simp add: feature_payload_def)
qed

lemma choice_returns: "seq \<noteq> [] \<Longrightarrow> \<exists>x. choice seq k = Inr x \<and> x \<in> set seq"
  by (simp add: choice_def)

lemma row_generated:
  assumes "length (device_ips @ vlan_ips) < 2 \<or>
           (\<exists>a \<in> set (device_ips @ vlan_ips). \<exists>b \<in> set (device_ips @ vlan_ips). a \<noteq> b)"
  shows "\<exists>row. generate_network_row device_ips vlan_ips now ru ri = Inr row"
proof -
  define all_ips where "all_ips = (if length (device_ips @ vlan_ips) < 2
      then [''192.168.1.1'', ''192.168.1.2'', ''192.168.10.1'', ''192.168.20.1'']
      else device_ips @ vlan_ips)"
  from assms have two: "\<exists>a \<in> set all_ips. \<exists>b \<in> set all_ips. a \<noteq> b"
    by (auto simp: all_ips_def)
  then have "all_ips \<noteq> []" by auto
  from choice_returns[OF this] obtain src
    where src: "choice all_ips (ri 0) = Inr src" by blast
  from two have "filter (\<lambda>ip. ip \<noteq> src) all_ips \<noteq> []"
    by (metis (mono_tags, lifting) filter_empty_conv)
  from choice_returns[OF this] obtain dst
    where dst: "choice (filter (\<lambda>ip. ip \<noteq> src) all_ips) (ri 1) = Inr dst" by blast
  obtain port where port: "choice [80, 443, 22, 25, 53, 21, 23, 993, 995 :: int] (ri 6) = Inr port"
    using choice_returns[of "[80, 443, 22, 25, 53, 21, 23, 993, 995 :: int]"] by auto
  show ?thesis
    unfolding generate_network_row_def Let_def
    unfolding all_ips_def[symmetric]
    unfolding src dst port sum.case
    by blast
qed

text \<open>
  Claim C10. The feature dictionary of \<open>generate_realistic_features\<close> has exactly the
  keys of \<open>IMPORTANT_FEATURES\<close>, in that order, which are 35 distinct names, and each of
  its values is a finite number. A row of \<open>_generate_network_row\<close> has the five
  metadata columns followed by exactly those 35 keys, so its feature payload has
  exactly the 35, each with a finite number; and a row is generated whenever the
  configured addresses are fewer than two or two of them differ.
\<close>

theorem feature_payload_is_the_35_features:
  "map fst (generate_realistic_features ru ri) = IMPORTANT_FEATURES
   \<and> list_all is_finite_number (map snd (generate_realistic_features ru ri))
   \<and> length IMPORTANT_FEATURES = 35
   \<and> distinct IMPORTANT_FEATURES
   \<and> (generate_network_row device_ips vlan_ips now ru' ri' = Inr row \<longrightarrow>
        map fst row = metadata_columns @ IMPORTANT_FEATURES \<and>
        map fst (feature_payload row) = IMPORTANT_FEATURES \<and>
        list_all is_finite_number (map snd (feature_payload row)))
   \<and> (length (device_ips @ vlan_ips) < 2 \<or>
        (\<exists>a \<in> set (device_ips @ vlan_ips). \<exists>b \<in> set (device_ips @ vlan_ips). a \<noteq> b) \<longrightarrow>
        (\<exists>row. generate_network_row device_ips vlan_ips now ru' ri' = Inr row))"
proof -
  have row: "map fst row = metadata_columns @ IMPORTANT_FEATURES \<and>
      map fst (feature_payload row) = IMPORTANT_FEATURES \<and>
      list_all is_finite_number (map snd (feature_payload row))"
    if g: "generate_network_row device_ips vlan_ips now ru' ri' = Inr row"
  proof -
    have m: "length metadata_columns = 5" by (simp add: metadata_columns_def)
    have "map fst (drop 5 row) = drop 5 (map fst row)" by (simp add: drop_map)
    also have "\<dots> = IMPORTANT_FEATURES" using m by (simp add: row_keys[OF g])
    finally have k: "map fst (drop 5 row) = IMPORTANT_FEATURES" .
    from k row_keys[OF g] row_features_finite[OF g] show ?thesis
      by (simp add: row_payload[OF g])
  qed
  from row realistic_keys realistic_finite important_features_length
    important_features_distinct row_generated[of device_ips vlan_ips now ru' ri']
  show ?thesis by blast
qed

text \<open>
  The theorem at two configured addresses and the example draws: a row is generated,
  with source \<open>192.168.10.2\<close> (draw 7 of two addresses), and its payload has the 35 keys.
\<close>

theorem feature_payload_is_the_35_features_witness:
  "(\<exists>row. generate_network_row [''192.168.10.1''] [''192.168.10.2''] ''2025-01-01T00:00:00''
            half_draws seven_draws = Inr row
          \<and> map_of row ''Src IP'' = Some (PyStr ''192.168.10.2'')
          \<and> map_of row ''Dst IP'' = Some (PyStr ''192.168.10.1'')
          \<and> map fst (feature_payload row) = IMPORTANT_FEATURES
          \<and> list_all is_finite_number (map snd (feature_payload row)))
   \<and> length (generate_realistic_features half_draws seven_draws) = 35"
proof -
  have two: "length ([''192.168.10.1''] @ [''192.168.10.2'']) < 2 \<or>
      (\<exists>a \<in> set ([''192.168.10.1''] @ [''192.168.10.2'']).
         \<exists>b \<in> set ([''192.168.10.1''] @ [''192.168.10.2'']). a \<noteq> b)"
    by auto
  note inst = feature_payload_is_the_35_features[where device_ips = "[''192.168.10.1'']"
      and vlan_ips = "[''192.168.10.2'']" and now = "''2025-01-01T00:00:00''"
      and ru' = half_draws and ri' = seven_draws and ru = half_draws and ri = seven_draws]
  from inst two obtain row where g: "generate_network_row [''192.168.10.1''] [''192.168.10.2'']
      ''2025-01-01T00:00:00'' half_draws seven_draws = Inr row"
    by blast
  from inst[where row = row] g have p: "map fst (feature_payload row) = IMPORTANT_FEATURES"
    "list_all is_finite_number (map snd (feature_payload row))"
    by blast+
  define all_ips where "all_ips = (if length ([''192.168.10.1''] @ [''192.168.10.2'']) < 2
      then [''192.168.1.1'', ''192.168.1.2'', ''192.168.10.1'', ''192.168.20.1'']
      else [''192.168.10.1''] @ [''192.168.10.2''])"
  have ips: "all_ips = [''192.168.10.1'', ''192.168.10.2'']"
    by (simp add: all_ips_def)
  have c0: "choice all_ips (seven_draws 0) = Inr ''192.168.10.2''"
    unfolding ips by code_simp
  have c1: "choice (filter (\<lambda>ip. ip \<noteq> ''192.168.10.2'') all_ips) (seven_draws 1) =
      Inr ''192.168.10.1''"
    unfolding ips by code_simp
  have c2: "choice [80, 443, 22, 25, 53, 21, 23, 993, 995 :: int] (seven_draws 6) = Inr 993"
    by code_simp
  have "\<exists>rest. generate_network_row [''192.168.10.1''] [''192.168.10.2'']
      ''2025-01-01T00:00:00'' half_draws seven_draws =
      Inr ((''Timestamp'', PyStr ''2025-01-01T00:00:00'') #
           (''Src IP'', PyStr ''192.168.10.2'') # (''Dst IP'', PyStr ''192.168.10.1'') # rest)"
    unfolding generate_network_row_def Let_def
    unfolding all_ips_def[symmetric]
    unfolding c0 c1 c2 sum.case
    by blast
  with g have s: "map_of row ''Src IP'' = Some (PyStr ''192.168.10.2'')"
    "map_of row ''Dst IP'' = Some (PyStr ''192.168.10.1'')"
    by auto
  from inst have "length (map fst (generate_realistic_features half_draws seven_draws)) = 35"
    by simp
  then have l: "length (generate_realistic_features half_draws seven_draws) = 35" by simp
  from g p s l show ?thesis by blast
qed

section \<open>Failures inside a batch\<close>

lemma all_ips_two: "''192.168.60.2'' \<in> set get_all_ips" "''192.168.60.14'' \<in> set get_all_ips"
  by (simp_all add: get_all_ips_def)

lemma other_ip_exists: "filter (\<lambda>ip. ip \<noteq> src) get_all_ips \<noteq> []"
proof (cases "src = ''192.168.60.2''")
  case True
  then have "''192.168.60.14'' \<in> set (filter (\<lambda>ip. ip \<noteq> src) get_all_ips)"
    using all_ips_two(2) by simp
  then show ?thesis by (metis empty_iff empty_set)
next
  case False
  then have "''192.168.60.2'' \<in> set (filter (\<lambda>ip. ip \<noteq> src) get_all_ips)"
    using all_ips_two(1) by simp
  then show ?thesis by (metis empty_iff empty_set)
qed

lemma save_event_choices:
  obtains src dst dport where
    "choice get_all_ips (src_draw u) = Inr src"
    "choice (filter (\<lambda>ip. ip \<noteq> src) get_all_ips) (dst_draw u) = Inr dst"
    "choice [22, 23, 53, 80, 443, 993, 995, 3306, 5432, 8080 :: int] (dst_port_draw u) = Inr dport"
proof -
  have "get_all_ips \<noteq> []" using all_ips_two(1) by auto
  then obtain src where 1: "choice get_all_ips (src_draw u) = Inr src"
    by (auto simp: choice_def)
  from other_ip_exists[of src] obtain dst
    where 2: "choice (filter (\<lambda>ip. ip \<noteq> src) get_all_ips) (dst_draw u) = Inr dst"
    by (auto simp: choice_def)
  obtain dport where
    3: "choice [22, 23, 53, 80, 443, 993, 995, 3306, 5432, 8080 :: int] (dst_port_draw u) = Inr dport"
    by (auto simp: choice_def)
  from 1 2 3 that show ?thesis by blast
qed

text \<open>An event commit that raises leaves the iteration with the exception.\<close>

lemma save_event_raises:
  assumes "event_commit u = Some e"
  shows "save_event u s = Inl e"
proof -
  obtain src dst dport where c:
    "choice get_all_ips (src_draw u) = Inr src"
    "choice (filter (\<lambda>ip. ip \<noteq> src) get_all_ips) (dst_draw u) = Inr dst"
    "choice [22, 23, 53, 80, 443, 993, 995, 3306, 5432, 8080 :: int] (dst_port_draw u) = Inr dport"
    by (rule save_event_choices)
  show ?thesis
    unfolding save_event_def c sum.case Let_def assms option.case ..
qed

text \<open>The response of a unit never raises and never touches the events table.\<close>

lemma generate_and_save_response_events:
  "app_db.events (generate_and_save_response ev fs u s) = app_db.events s"
  by (auto simp: generate_and_save_response_def save_response_def Let_def
      split: sum.splits option.splits)

lemma save_event_persists:
  assumes "event_commit u = None"
  shows "\<exists>s'. save_event u s = Inr s' \<and>
           map app_event.log_id (app_db.events s') =
             map app_event.log_id (app_db.events s) @ [event_log_id u]"
proof -
  obtain src dst dport where c:
    "choice get_all_ips (src_draw u) = Inr src"
    "choice (filter (\<lambda>ip. ip \<noteq> src) get_all_ips) (dst_draw u) = Inr dst"
    "choice [22, 23, 53, 80, 443, 993, 995, 3306, 5432, 8080 :: int] (dst_port_draw u) = Inr dport"
    by (rule save_event_choices)
  show ?thesis
    unfolding save_event_def c sum.case Let_def assms option.case
    by (simp add: generate_and_save_response_events)
qed

text \<open>
  The loop persists the units before the first one whose commit raises, and none after
  it: the rest of the batch is not processed.
\<close>

lemma event_loop_all_persisted:
  assumes "\<forall>u \<in> set us. event_commit u = None"
  shows "fst (event_loop us s) = None \<and>
         map app_event.log_id (app_db.events (snd (event_loop us s))) =
           map app_event.log_id (app_db.events s) @ map event_log_id us"
  using assms
proof (induction us arbitrary: s)
  case Nil
  then show ?case by simp
next
  case (Cons u us)
  from Cons.prems have "event_commit u = None" by simp
  from save_event_persists[OF this, of s] obtain s' where s': "save_event u s = Inr s'"
    "map app_event.log_id (app_db.events s') =
       map app_event.log_id (app_db.events s) @ [event_log_id u]"
    by blast
  from Cons.prems have "\<forall>u \<in> set us. event_commit u = None" by simp
  from Cons.IH[OF this, of s'] s' show ?case by simp
qed

lemma event_loop_stops_at_failure:
  assumes "\<forall>u \<in> set before. event_commit u = None" and "event_commit u = Some e"
  shows "fst (event_loop (before @ u # rest) s) = Some e \<and>
         map app_event.log_id (app_db.events (snd (event_loop (before @ u # rest) s))) =
           map app_event.log_id (app_db.events s) @ map event_log_id before"
  using assms(1)
proof (induction before arbitrary: s)
  case Nil
  then show ?case by (simp add: save_event_raises[OF assms(2)])
next
  case (Cons b before)
  from Cons.prems have "event_commit b = None" by simp
  from save_event_persists[OF this, of s] obtain s' where s': "save_event b s = Inr s'"
    "map app_event.log_id (app_db.events s') =
       map app_event.log_id (app_db.events s) @ [event_log_id b]"
    by blast
  from Cons.prems have "\<forall>u \<in> set before. event_commit u = None" by simp
  from Cons.IH[OF this, of s'] s' show ?case by simp
qed

text \<open>
  The CSV path has its handler inside the loop: every row whose commit does not raise
  is persisted, whatever happens to the rows before it.
\<close>

lemma process_row_table:
  "map event.log_id (table (snd (process_row r p))) =
     map event.log_id (table p) @ (if add_commit r = None then [row_log_id r] else [])"
  by (auto simp: process_row_def Let_def map_update list_update_append
      split: option.splits)

lemma process_rows_isolated:
  "map event.log_id (table (process_rows rs p)) =
     map event.log_id (table p) @ map row_log_id (filter (\<lambda>r. add_commit r = None) rs)"
proof (induction rs arbitrary: p)
  case Nil
  then show ?case by simp
next
  case (Cons r rs)
  obtain x p' where rp: "process_row r p = (x, p')" by (cases "process_row r p")
  with process_row_table[of r p] have t: "map event.log_id (table p') =
      map event.log_id (table p) @ (if add_commit r = None then [row_log_id r] else [])"
    by simp
  show ?case
  proof (cases x)
    case None
    with rp Cons.IH[of p'] t show ?thesis by simp
  next
    case (Some e)
    with rp Cons.IH[of "p'\<lparr> logged := logged p' @ [''Error processing row: '' @ str_of_error e] \<rparr>"] t
    show ?thesis by simp
  qed
qed

lemma save_event_console_anomalous:
  assumes "event_commit u = None" and "weighted_status (status_draw u) = ''anomalous''"
    and r: "\<And>ev fs s. console (generate_and_save_response ev fs u s) = console s @ extra"
  shows "(case save_event u s of
            Inl e \<Rightarrow> False
          | Inr s' \<Rightarrow> console s' = console s @ extra @ [''Generated event''])"
proof -
  obtain src dst dport where c:
    "choice get_all_ips (src_draw u) = Inr src"
    "choice (filter (\<lambda>ip. ip \<noteq> src) get_all_ips) (dst_draw u) = Inr dst"
    "choice [22, 23, 53, 80, 443, 993, 995, 3306, 5432, 8080 :: int] (dst_port_draw u) = Inr dport"
    by (rule save_event_choices)
  show ?thesis
    unfolding save_event_def c sum.case Let_def assms(1,2) option.case simp_thms if_True
    by (simp add: r)
qed

lemma example_response_fails:
  "console (generate_and_save_response ev fs (example_unit 0) s) =
     console s @ [''Error generating response: database is locked'']"
  by (simp add: generate_and_save_response_def save_response_def example_unit_def choice_def
      anomaly_type1_list_def anomaly_type2_list_def response_types_type1_def
      response_types_type2_def dict_item_def database_locked_def Let_def)

lemma example_unit_commits:
  "event_commit (example_unit 0) = None"
  "event_commit (example_unit 1) = Some database_locked"
  "event_commit (example_unit 2) = None"
  "event_log_id (example_unit 0) = ''log_0''"
  "event_log_id (example_unit 2) = ''log_2''"
  "weighted_status (status_draw (example_unit 0)) = ''anomalous''"
  by (simp_all add: example_unit_def weighted_status_def)

lemma example_batch_units:
  "map example_unit [0..<nat (randint 3 8 0)] = [example_unit 0, example_unit 1, example_unit 2]"
proof -
  have "nat (randint 3 8 0) = 3" by (simp add: randint_def)
  moreover have "[0..<3] = [0, 1, 2]" by (simp add: upt_rec)
  ultimately show ?thesis by simp
qed

lemma example_batch_loop:
  "fst (event_loop [example_unit 0, example_unit 1, example_unit 2] empty_app_db) =
     Some database_locked"
  "map app_event.log_id
     (app_db.events (snd (event_loop [example_unit 0, example_unit 1, example_unit 2]
        empty_app_db))) = [''log_0'']"
  "console (snd (event_loop [example_unit 0, example_unit 1, example_unit 2] empty_app_db)) =
     [''Error generating response: database is locked'', ''Generated event'']"
proof -
  from save_event_persists[OF example_unit_commits(1), of empty_app_db]
  obtain s1 :: app_db where step: "save_event (example_unit 0) empty_app_db = Inr s1"
    and ids: "map app_event.log_id (app_db.events s1) =
      map app_event.log_id (app_db.events empty_app_db) @ [event_log_id (example_unit 0)]"
    by blast
  from save_event_console_anomalous[OF example_unit_commits(1) example_unit_commits(6)
      example_response_fails, of empty_app_db]
  have con: "console s1 = console empty_app_db @
      [''Error generating response: database is locked''] @ [''Generated event'']"
    unfolding step by simp
  have "event_loop [example_unit 0, example_unit 1, example_unit 2] empty_app_db =
      event_loop [example_unit 1, example_unit 2] s1"
    by (simp only: event_loop.simps step sum.case)
  also have "\<dots> = (Some database_locked, s1)"
    by (simp only: event_loop.simps save_event_raises[OF example_unit_commits(2)] sum.case)
  finally have loop: "event_loop [example_unit 0, example_unit 1, example_unit 2] empty_app_db =
      (Some database_locked, s1)" .
  show "fst (event_loop [example_unit 0, example_unit 1, example_unit 2] empty_app_db) =
     Some database_locked"
    unfolding loop by simp
  show "map app_event.log_id
     (app_db.events (snd (event_loop [example_unit 0, example_unit 1, example_unit 2]
        empty_app_db))) = [''log_0'']"
    unfolding loop using ids by (simp add: empty_app_db_def example_unit_commits)
  show "console (snd (event_loop [example_unit 0, example_unit 1, example_unit 2]
      empty_app_db)) =
     [''Error generating response: database is locked'', ''Generated event'']"
    unfolding loop using con by (simp add: empty_app_db_def)
qed

lemma generate_and_save_events_result:
  "generate_and_save_events d envs s =
     (let r = event_loop (map envs [0..<nat (randint 3 8 d)]) s in
      case fst r of
        None \<Rightarrow> snd r
      | Some e \<Rightarrow>
          (snd r)\<lparr> console := console (snd r) @ [''Error generating events: '' @ str_of_error e] \<rparr>)"
  by (simp add: generate_and_save_events_def Let_def split: prod.splits option.splits)

text \<open>
  Claim C7, evaluated where the code departs from it. In the example batch of three
  units the failure of unit 0's response is caught, printed and unit 0 completes; the
  commit of unit 1's event raises, and \<open>generate_and_save_events\<close>, whose handler
  encloses the whole loop, prints the exception and returns: unit 2, whose processing
  on its own succeeds, is never processed and only \<open>log_0\<close> is in the events table.
  On three rows with the same failure \<open>process_csv_file\<close>, whose handler is inside the
  loop, persists rows 0 and 2.
\<close>

theorem batch_stops_at_first_failed_commit:
  "map app_event.log_id
     (app_db.events (generate_and_save_events 0 example_unit empty_app_db)) = [''log_0'']
   \<and> console (generate_and_save_events 0 example_unit empty_app_db) =
       [''Error generating response: database is locked'', ''Generated event'',
        ''Error generating events: database is locked'']
   \<and> event_commit (example_unit 2) = None
   \<and> (\<exists>s'. save_event (example_unit 2) empty_app_db = Inr s' \<and>
             map app_event.log_id (app_db.events s') = [''log_2''])
   \<and> map event.log_id
        (snd (process_csv_file (Inr [example_row 0, example_row 1, example_row 2]) [])) =
       [''log_0'', ''log_2'']"
proof -
  have batch: "generate_and_save_events 0 example_unit empty_app_db =
      (snd (event_loop [example_unit 0, example_unit 1, example_unit 2] empty_app_db))
        \<lparr> console :=
            console (snd (event_loop [example_unit 0, example_unit 1, example_unit 2]
              empty_app_db)) @ [''Error generating events: database is locked''] \<rparr>"
    unfolding generate_and_save_events_result Let_def example_batch_units example_batch_loop(1)
    by (simp add: database_locked_def)
  have ids: "map app_event.log_id
      (app_db.events (generate_and_save_events 0 example_unit empty_app_db)) = [''log_0'']"
    unfolding batch using example_batch_loop(2) by simp
  have con: "console (generate_and_save_events 0 example_unit empty_app_db) =
       [''Error generating response: database is locked'', ''Generated event'',
        ''Error generating events: database is locked'']"
    unfolding batch using example_batch_loop(3) by simp
  from save_event_persists[OF example_unit_commits(3), of empty_app_db]
  have alone: "\<exists>s'. save_event (example_unit 2) empty_app_db = Inr s' \<and>
      map app_event.log_id (app_db.events s') = [''log_2'']"
    by (simp add: empty_app_db_def example_unit_commits)
  have csv: "map event.log_id
      (snd (process_csv_file (Inr [example_row 0, example_row 1, example_row 2]) [])) =
      [''log_0'', ''log_2'']"
    unfolding process_csv_file_def Let_def sum.case snd_conv process_rows_isolated
    by (simp add: example_row_def)
  show ?thesis
    by (intro conjI ids con alone csv example_unit_commits(3))
qed

end
